theory Spec2Isabelle
  imports Main "HOL-Library.Word" "HOL-Library.Sublist"
begin

text \<open>
  A shallow embedding of the host side of the Cardano application of a hardware wallet:
  \<^item> \<open>Ada.js\<close>, the legacy client: \<open>setTransaction\<close>, which streams a transaction to the
    device in chunks;
  \<^item> \<open>Ada.ts\<close>: the send function, the retry wrapper, the driver \<open>interact\<close> of
    interactions, and the public operations;
  \<^item> \<open>parsing.ts\<close>: the parsers of certificates and pool parameters, and
    \<open>validateTransaction\<close>.
  Whatever throws in the source returns \<open>Inl\<close> of the error here; the device and its
  channel are a state that every exchange reads and changes.
\<close>

section \<open>Common data\<close>

type_synonym byte = "8 word"
type_synonym Buffer = "byte list"

section \<open>Ada.js: the legacy client, \<open>setTransaction\<close>\<close>

definition P1_FIRST :: byte where "P1_FIRST = 0x01"
definition P1_NEXT :: byte where "P1_NEXT = 0x02"
definition P1_LAST :: byte where "P1_LAST = 0x03"

definition P2_SINGLE_TX :: byte where "P2_SINGLE_TX = 0x01"
definition P2_MULTI_TX :: byte where "P2_MULTI_TX = 0x02"

definition LEGACY_CLA :: byte where "LEGACY_CLA = 0x80"
definition INS_SET_TX :: byte where "INS_SET_TX = 0x02"

definition MAX_APDU_SIZE :: nat where "MAX_APDU_SIZE = 64"
definition OFFSET_CDATA :: nat where "OFFSET_CDATA = 5"
definition MAX_ADDR_PRINT_LENGTH :: nat where "MAX_ADDR_PRINT_LENGTH = 12"

text \<open>\<open>const chunkSize = MAX_APDU_SIZE - OFFSET_CDATA\<close>\<close>

definition chunkSize :: nat where
  "chunkSize = MAX_APDU_SIZE - OFFSET_CDATA"

text \<open>The five arguments of one \<open>transport.send(CLA, INS_SET_TX, p1, p2, chunk)\<close>.\<close>

record LegacyApdu =
  apdu_cla :: byte
  apdu_ins :: byte
  apdu_p1 :: byte
  apdu_p2 :: byte
  apdu_data :: Buffer

text \<open>
  What a step of \<open>setTransaction\<close> can throw: whatever the transport threw (the type
  \<open>'e\<close> is the transport's), or the \<open>RangeError\<close> of a \<open>readUInt32LE\<close> past the end of
  the response.
\<close>

datatype 'e legacy_error = TransportThrew 'e | RangeError

text \<open>
  The transport is not part of the client: it is a state machine \<open>'s\<close> that answers one
  frame with a response or throws, and moves to a new state.
\<close>

type_synonym ('e, 's) legacy_transport = "LegacyApdu \<Rightarrow> 's \<Rightarrow> ('e + Buffer) \<times> 's"

text \<open>
  One entry of \<open>txs\<close> (fields \<open>address\<close>, \<open>amount\<close>) and the \<open>response\<close> object (fields
  \<open>inputs\<close>, \<open>outputs\<close>, \<open>txs\<close>): the address is the slice of the response (the source prints it
  with \<open>toString()\<close>), the amount the 64 bits that \<open>new Int64(hi, lo)\<close> holds (the source
  prints them with \<open>toOctetString()\<close>).
\<close>

record LegacyTxEntry =
  entry_address :: Buffer
  entry_amount :: "64 word"

record LegacyResponse =
  resp_inputs :: byte
  resp_outputs :: byte
  resp_txs :: "LegacyTxEntry list"

text \<open>\<open>buf.slice(a, b)\<close> for \<open>0 \<le> a \<le> b\<close>: it never throws and stops at the end.\<close>

definition slice :: "'a list \<Rightarrow> nat \<Rightarrow> nat \<Rightarrow> 'a list" where
  "slice buf a b = take (b - a) (drop a buf)"

text \<open>\<open>buf.readUInt32LE(offset)\<close>: four bytes, little endian, or a \<open>RangeError\<close>.\<close>

definition readUInt32LE :: "Buffer \<Rightarrow> nat \<Rightarrow> 'e legacy_error + 32 word" where
  "readUInt32LE buf offset =
     (if offset + 4 \<le> length buf
      then Inr (word_rcat (rev (slice buf offset (offset + 4))))
      else Inl RangeError)"

text \<open>\<open>new Int64(hi, lo)\<close>\<close>

definition Int64 :: "32 word \<Rightarrow> 32 word \<Rightarrow> 64 word" where
  "Int64 hi lo = word_cat hi lo"

text \<open>
  The inner loop \<open>for (let i = 0; i < outputs; i++)\<close> over the response; \<open>n\<close> counts the
  iterations left, \<open>acc\<close> is \<open>txs\<close> in reverse. The arguments of \<open>new Int64\<close> are
  evaluated left to right: the high word at \<open>offset + 4\<close> is read first.
\<close>

fun readTxs :: "Buffer \<Rightarrow> nat \<Rightarrow> nat \<Rightarrow> LegacyTxEntry list \<Rightarrow> 'e legacy_error + LegacyTxEntry list" where
  "readTxs res 0 offset acc = Inr (rev acc)"
| "readTxs res (Suc n) offset acc =
     (let addr = slice res offset (offset + MAX_ADDR_PRINT_LENGTH);
          offset' = offset + MAX_ADDR_PRINT_LENGTH
      in case readUInt32LE res (offset' + 4) of
           Inl e \<Rightarrow> Inl e
         | Inr hi \<Rightarrow>
             (case readUInt32LE res offset' of
                Inl e \<Rightarrow> Inl e
              | Inr lo \<Rightarrow>
                  readTxs res n (offset' + 8)
                    (\<lparr>entry_address = addr, entry_amount = Int64 hi lo\<rparr> # acc)))"

text \<open>
  The body of \<open>if (res.length > 4) { ... }\<close>: the new value of \<open>response\<close>
  (\<open>None\<close> is the initial \<open>{}\<close>).
\<close>

definition readResponse ::
  "Buffer \<Rightarrow> LegacyResponse option \<Rightarrow> 'e legacy_error + LegacyResponse option" where
  "readResponse res response =
     (if length res > 4
      then (case readTxs res (unat (res ! 1)) 2 [] of
              Inl e \<Rightarrow> Inl e
            | Inr ts \<Rightarrow> Inr (Some \<lparr>resp_inputs = res ! 0, resp_outputs = res ! 1, resp_txs = ts\<rparr>))
      else Inr response)"

text \<open>The frame that the loop body builds at offset \<open>i\<close>.\<close>

definition frameAt :: "Buffer \<Rightarrow> nat \<Rightarrow> LegacyApdu" where
  "frameAt rawTx i =
     (let chunk = slice rawTx i (i + chunkSize);
          p2 = (if length rawTx < chunkSize then P2_SINGLE_TX else P2_MULTI_TX);
          p1 = (if i = 0 then P1_FIRST
                else if i + chunkSize \<ge> length rawTx then P1_LAST
                else P1_NEXT)
      in \<lparr>apdu_cla = LEGACY_CLA, apdu_ins = INS_SET_TX, apdu_p1 = p1, apdu_p2 = p2,
          apdu_data = chunk\<rparr>)"

text \<open>
  \<open>for (let i = 0; i < rawTx.length; i += chunkSize) { ... }\<close>, with the state of the
  transport passed along. The result is what the promise settles to, the frames handed
  to the transport so far (in the order of the calls) and the transport's last state.
\<close>

function setTransaction_loop ::
  "('e, 's) legacy_transport \<Rightarrow> Buffer \<Rightarrow> nat \<Rightarrow> LegacyResponse option \<Rightarrow> LegacyApdu list \<Rightarrow> 's
    \<Rightarrow> ('e legacy_error + LegacyResponse option) \<times> LegacyApdu list \<times> 's" where
  "setTransaction_loop send rawTx i response sent s =
     (if i < length rawTx
      then (let frame = frameAt rawTx i
            in case send frame s of
                 (Inl e, s') \<Rightarrow> (Inl (TransportThrew e), sent @ [frame], s')
               | (Inr res, s') \<Rightarrow>
                   (case readResponse res response of
                      Inl e \<Rightarrow> (Inl e, sent @ [frame], s')
                    | Inr response' \<Rightarrow>
                        setTransaction_loop send rawTx (i + chunkSize) response'
                          (sent @ [frame]) s'))
      else (Inr response, sent, s))"
  by pat_completeness auto
termination
  by (relation "measure (\<lambda>(send, rawTx, i, response, sent, s). length rawTx - i)")
     (auto simp: chunkSize_def MAX_APDU_SIZE_def OFFSET_CDATA_def)

text \<open>
  \<open>setTransaction\<close>, from \<open>rawTx = Buffer.from(txHex, "hex")\<close> on: the claims are about
  the bytes of \<open>rawTx\<close>.
\<close>

definition setTransaction ::
  "('e, 's) legacy_transport \<Rightarrow> Buffer \<Rightarrow> 's
    \<Rightarrow> ('e legacy_error + LegacyResponse option) \<times> LegacyApdu list \<times> 's" where
  "setTransaction send rawTx s = setTransaction_loop send rawTx 0 None [] s"

text \<open>
  The frames of a run in which no exchange fails: the loop's frames from offset \<open>i\<close> on.
  It is the loop above without the transport.
\<close>

function framesFrom :: "Buffer \<Rightarrow> nat \<Rightarrow> LegacyApdu list" where
  "framesFrom rawTx i =
     (if i < length rawTx then frameAt rawTx i # framesFrom rawTx (i + chunkSize) else [])"
  by pat_completeness auto
termination
  by (relation "measure (\<lambda>(rawTx, i). length rawTx - i)")
     (auto simp: chunkSize_def MAX_APDU_SIZE_def OFFSET_CDATA_def)

text \<open>A transport that accepts every frame with the bare status \<open>0x9000\<close> and counts its calls.\<close>

definition acceptAll :: "(unit, nat) legacy_transport" where
  "acceptAll frame n = (Inr [0x90, 0x00], Suc n)"

text \<open>
  A transport that answers every frame with five bytes: one input, one output, one
  more byte and the status. The response is too short for the output that it
  announces.
\<close>

definition truncatedAnswer :: "(unit, nat) legacy_transport" where
  "truncatedAnswer frame n = (Inr [1, 1, 0x41, 0x90, 0x00], Suc n)"


section \<open>Ada.ts: errors and the send function\<close>

definition CLA :: byte where "CLA = 0xd7"

text \<open>The request that an interaction yields (\<open>SendParams\<close>), as \<open>_send\<close> reads it.\<close>

record SendParams =
  ins :: byte
  p1 :: byte
  p2 :: byte
  data :: Buffer
  expectedResponseLength :: "nat option"

datatype InvalidDataReason = GET_EXT_PUB_KEY_PATHS_NOT_ARRAY | INVALID_PATH

text \<open>
  Everything that can be thrown while an operation runs.
  \<^item> \<open>TransportStatusError c\<close>: the transport threw an object whose \<open>statusCode\<close> is the
    number \<open>c\<close>;
  \<^item> \<open>TransportError m\<close>: the transport threw something with no numeric \<open>statusCode\<close>
    (channel broken, timeout);
  \<^item> \<open>DeviceStatusError c\<close>: \<open>new DeviceStatusError(c)\<close>;
  \<^item> \<open>AssertionError\<close>: a failed \<open>assert\<close>;
  \<^item> \<open>MalformedResponse\<close>: a response with no room for the status code;
  \<^item> \<open>InvalidDataError r\<close>: a failed \<open>validate\<close> or parser of the request;
  \<^item> \<open>InteractionError m\<close>: anything an interaction throws by itself (an unsupported
    feature, a response it cannot decode).
\<close>

datatype error =
    TransportStatusError nat
  | TransportError string
  | DeviceStatusError nat
  | AssertionError
  | MalformedResponse
  | InvalidDataError InvalidDataReason
  | InteractionError string

text \<open>
  Modelled from the spec: \<open>e.statusCode\<close> of a \<open>DeviceStatusError\<close>. The class (module
  \<open>./errors\<close>) is not among the sources; by the spec it "carries the raw status", read
  here as its \<open>statusCode\<close>. An error thrown by the transport has the status code it was
  thrown with; the other errors built by this library carry none.
\<close>

fun statusCode :: "error \<Rightarrow> nat option" where
  "statusCode (TransportStatusError c) = Some c"
| "statusCode (DeviceStatusError c) = Some c"
| "statusCode _ = None"

text \<open>
  A function that performs input and output on the device: from the state \<open>'s\<close> of the
  world (device and channel) to what it returns or throws, and the new state.
\<close>

type_synonym ('p, 'r, 's) io = "'p \<Rightarrow> 's \<Rightarrow> (error + 'r) \<times> 's"

text \<open>\<open>transport.send(cla, ins, p1, p2, data)\<close>\<close>

type_synonym 's Transport = "(byte \<times> byte \<times> byte \<times> byte \<times> Buffer, Buffer, 's) io"

type_synonym 's SendFn = "(SendParams, Buffer, 's) io"

text \<open>
  \<open>wrapConvertDeviceStatusError(fn)(...args)\<close>: an error with a numeric \<open>statusCode\<close>
  becomes a \<open>DeviceStatusError\<close>, any other is thrown again.
\<close>

definition wrapConvertDeviceStatusError :: "('p, 'r, 's) io \<Rightarrow> ('p, 'r, 's) io" where
  "wrapConvertDeviceStatusError fn args s =
     (case fn args s of
        (Inr r, s') \<Rightarrow> (Inr r, s')
      | (Inl e, s') \<Rightarrow>
          (case statusCode e of
             Some c \<Rightarrow> (Inl (DeviceStatusError c), s')
           | None \<Rightarrow> (Inl e, s')))"

text \<open>
  \<open>wrapRetryStillInCall(fn)(...args)\<close>. The constant
  \<open>DeviceStatusCodes.ERR_STILL_IN_CALL\<close> is not among the sources and is a parameter.
  \<open>e.statusCode && e.statusCode === ERR_STILL_IN_CALL\<close>: a status code of \<open>0\<close> is falsy.
\<close>

definition wrapRetryStillInCall :: "nat \<Rightarrow> ('p, 'r, 's) io \<Rightarrow> ('p, 'r, 's) io" where
  "wrapRetryStillInCall ERR_STILL_IN_CALL fn args s =
     (case fn args s of
        (Inr r, s') \<Rightarrow> (Inr r, s')
      | (Inl e, s') \<Rightarrow>
          (if (case statusCode e of
                 Some c \<Rightarrow> c \<noteq> 0 \<and> c = ERR_STILL_IN_CALL
               | None \<Rightarrow> False)
           then fn args s'
           else (Inl e, s')))"

text \<open>
  Modelled from the spec: \<open>utils.stripRetcodeFromResponse\<close> is not among the sources. A
  response frame is \<open>payload || status:2\<close> and the helper removes the trailing status
  code; a frame too short to hold one is rejected.
\<close>

definition stripRetcodeFromResponse :: "Buffer \<Rightarrow> error + Buffer" where
  "stripRetcodeFromResponse response =
     (if 2 \<le> length response
      then Inr (take (length response - 2) response)
      else Inl MalformedResponse)"

text \<open>\<open>this._send\<close>, the function that the constructor builds around the transport.\<close>

definition Ada_send :: "'s Transport \<Rightarrow> 's SendFn" where
  "Ada_send transport_send params s =
     (case wrapConvertDeviceStatusError transport_send
             (CLA, ins params, p1 params, p2 params, data params) s of
        (Inl e, s') \<Rightarrow> (Inl e, s')
      | (Inr response, s') \<Rightarrow>
          (case stripRetcodeFromResponse response of
             Inl e \<Rightarrow> (Inl e, s')
           | Inr response' \<Rightarrow>
               (case expectedResponseLength params of
                  None \<Rightarrow> (Inr response', s')
                | Some n \<Rightarrow>
                    (if length response' = n
                     then (Inr response', s')
                     else (Inl AssertionError, s')))))"

section \<open>Ada.ts: interactions and their driver\<close>

text \<open>
  An \<open>Interaction<T>\<close> is a generator: resumed, it returns a value, throws, or yields
  the next request and waits for the response. Every path through the datatype is
  finite, as the spec has it ("a lazy, ordered, finite sequence of outbound request
  frames").
\<close>

datatype 'a Interaction =
    Return 'a
  | Throw error
  | Yield SendParams "Buffer \<Rightarrow> 'a Interaction"

text \<open>\<open>const x = yield* inner; ... rest(x)\<close>: delegation to another generator.\<close>

primrec yield_star :: "'a Interaction \<Rightarrow> ('a \<Rightarrow> 'b Interaction) \<Rightarrow> 'b Interaction" where
  "yield_star (Return v) rest = rest v"
| "yield_star (Throw e) rest = Throw e"
| "yield_star (Yield request k) rest = Yield request (\<lambda>response. yield_star (k response) rest)"

text \<open>
  The \<open>while (!cursor.done)\<close> loop of \<open>interact\<close>; the interaction is the cursor and
  \<open>first\<close> the flag of the source.
\<close>

primrec interact_loop ::
  "nat \<Rightarrow> 'a Interaction \<Rightarrow> bool \<Rightarrow> 's SendFn \<Rightarrow> 's \<Rightarrow> (error + 'a) \<times> 's" where
  "interact_loop ERR_STILL_IN_CALL (Return v) first send s = (Inr v, s)"
| "interact_loop ERR_STILL_IN_CALL (Throw e) first send s = (Inl e, s)"
| "interact_loop ERR_STILL_IN_CALL (Yield apdu k) first send s =
     (case (if first then wrapRetryStillInCall ERR_STILL_IN_CALL send apdu s else send apdu s) of
        (Inl e, s') \<Rightarrow> (Inl e, s')
      | (Inr res, s') \<Rightarrow> interact_loop ERR_STILL_IN_CALL (k res) False send s')"

definition interact :: "nat \<Rightarrow> 'a Interaction \<Rightarrow> 's SendFn \<Rightarrow> 's \<Rightarrow> (error + 'a) \<times> 's" where
  "interact ERR_STILL_IN_CALL interaction send s =
     interact_loop ERR_STILL_IN_CALL interaction True send s"


section \<open>Ada.ts: the operations\<close>

text \<open>
  The interactions that \<open>Ada.ts\<close> imports (\<open>./interactions/*\<close>), the parsers of the
  requests (\<open>./parsing/*\<close>, \<open>./utils/parse\<close>) and their types are not among the sources:
  every operation below takes the ones it calls as parameters, under the names of the
  source.
\<close>

text \<open>
  Modelled from the spec: \<open>getVersion()\<close> (\<open>./interactions/getVersion\<close>, not among the
  sources). It is one exchange: the get-version request, whose response is decoded into
  the device version (or rejected). The request frame and the decoder are parameters.
\<close>

definition getVersion :: "SendParams \<Rightarrow> (Buffer \<Rightarrow> 'v Interaction) \<Rightarrow> 'v Interaction" where
  "getVersion getVersionRequest decodeVersion = Yield getVersionRequest decodeVersion"

text \<open>
  Modelled from the spec: the get-version request, the frame that \<open>getVersion()\<close> yields.
  By the spec the instruction byte of a command frame selects the operation and a
  device version is "major/minor/patch plus capability flags": the request has the
  get-version instruction, no sub-selector and no payload, and its response has four
  bytes. The instruction code (\<open>INS.GET_VERSION\<close>) is not among the sources and is a
  parameter.
\<close>

definition getVersionRequest :: "byte \<Rightarrow> SendParams" where
  "getVersionRequest INS_GET_VERSION =
     \<lparr>ins = INS_GET_VERSION, p1 = 0x00, p2 = 0x00, data = [], expectedResponseLength = Some 4\<rparr>"

text \<open>\<open>array.map(f)\<close> with an \<open>f\<close> that may throw: the first failure, in the order of the array.\<close>

fun mapE :: "('a \<Rightarrow> 'e + 'b) \<Rightarrow> 'a list \<Rightarrow> 'e + 'b list" where
  "mapE f [] = Inr []"
| "mapE f (x # xs) =
     (case f x of
        Inl e \<Rightarrow> Inl e
      | Inr y \<Rightarrow> (case mapE f xs of Inl e \<Rightarrow> Inl e | Inr ys \<Rightarrow> Inr (y # ys)))"

text \<open>
  The generator methods \<open>_getSerial\<close>, \<open>_getExtendedPublicKeys\<close>, ... of the class (an
  Isabelle name cannot start with an underscore: \<open>priv_\<close> stands for it). \<open>getVersion'\<close>
  is the imported \<open>getVersion()\<close>.
\<close>

definition priv_getVersion :: "'v Interaction \<Rightarrow> 'v Interaction" where
  "priv_getVersion getVersion' = yield_star getVersion' Return"

definition priv_getSerial :: "'v Interaction \<Rightarrow> ('v \<Rightarrow> 'r Interaction) \<Rightarrow> 'r Interaction" where
  "priv_getSerial getVersion' getSerial =
     yield_star getVersion' (\<lambda>version. getSerial version)"

definition priv_runTests :: "'v Interaction \<Rightarrow> ('v \<Rightarrow> 'r Interaction) \<Rightarrow> 'r Interaction" where
  "priv_runTests getVersion' runTests =
     yield_star getVersion' (\<lambda>version. runTests version)"

definition priv_getExtendedPublicKeys ::
  "'v Interaction \<Rightarrow> ('v \<Rightarrow> 'p list \<Rightarrow> 'r Interaction) \<Rightarrow> 'p list \<Rightarrow> 'r Interaction" where
  "priv_getExtendedPublicKeys getVersion' getExtendedPublicKeys paths =
     yield_star getVersion' (\<lambda>version. getExtendedPublicKeys version paths)"

definition priv_deriveAddress ::
  "'v Interaction \<Rightarrow> ('v \<Rightarrow> 'p \<Rightarrow> 'r Interaction) \<Rightarrow> 'p \<Rightarrow> 'r Interaction" where
  "priv_deriveAddress getVersion' deriveAddress addressParams =
     yield_star getVersion' (\<lambda>version. deriveAddress version addressParams)"

definition priv_showAddress ::
  "'v Interaction \<Rightarrow> ('v \<Rightarrow> 'p \<Rightarrow> 'r Interaction) \<Rightarrow> 'p \<Rightarrow> 'r Interaction" where
  "priv_showAddress getVersion' showAddress addressParams =
     yield_star getVersion' (\<lambda>version. showAddress version addressParams)"

definition priv_signTx ::
  "'v Interaction \<Rightarrow> ('v \<Rightarrow> 'p \<Rightarrow> 'r Interaction) \<Rightarrow> 'p \<Rightarrow> 'r Interaction" where
  "priv_signTx getVersion' signTransaction request =
     yield_star getVersion' (\<lambda>version. signTransaction version request)"

definition priv_signOperationalCertificate ::
  "'v Interaction \<Rightarrow> ('v \<Rightarrow> 'p \<Rightarrow> 'r Interaction) \<Rightarrow> 'p \<Rightarrow> 'r Interaction" where
  "priv_signOperationalCertificate getVersion' signOperationalCertificate request =
     yield_star getVersion' (\<lambda>version. signOperationalCertificate version request)"

definition priv_signCIP36Vote ::
  "'v Interaction \<Rightarrow> ('v \<Rightarrow> 'p \<Rightarrow> 'r Interaction) \<Rightarrow> 'p \<Rightarrow> 'r Interaction" where
  "priv_signCIP36Vote getVersion' signCVote request =
     yield_star getVersion' (\<lambda>version. signCVote version request)"

definition priv_deriveNativeScriptHash ::
  "'v Interaction \<Rightarrow> ('v \<Rightarrow> 'p \<Rightarrow> 'd \<Rightarrow> 'r Interaction) \<Rightarrow> 'p \<Rightarrow> 'd \<Rightarrow> 'r Interaction" where
  "priv_deriveNativeScriptHash getVersion' deriveNativeScriptHash script displayFormat =
     yield_star getVersion' (\<lambda>version. deriveNativeScriptHash version script displayFormat)"

text \<open>
  The public methods. \<open>transport\<close> is the field of the object, from which the
  constructor builds \<open>this._send\<close>; the object has no other field. A parser that throws
  ends the call before \<open>interact\<close> is reached.
\<close>

definition Ada_getVersion ::
  "nat \<Rightarrow> 's Transport \<Rightarrow> 'v Interaction \<Rightarrow> ('v \<Rightarrow> 'c) \<Rightarrow> 's \<Rightarrow> (error + 'v \<times> 'c) \<times> 's" where
  "Ada_getVersion ERR_STILL_IN_CALL transport getVersion' getCompatibility s =
     (case interact ERR_STILL_IN_CALL (priv_getVersion getVersion') (Ada_send transport) s of
        (Inl e, s') \<Rightarrow> (Inl e, s')
      | (Inr version, s') \<Rightarrow> (Inr (version, getCompatibility version), s'))"

definition Ada_getSerial ::
  "nat \<Rightarrow> 's Transport \<Rightarrow> 'v Interaction \<Rightarrow> ('v \<Rightarrow> 'r Interaction) \<Rightarrow> 's \<Rightarrow> (error + 'r) \<times> 's" where
  "Ada_getSerial ERR_STILL_IN_CALL transport getVersion' getSerial s =
     interact ERR_STILL_IN_CALL (priv_getSerial getVersion' getSerial) (Ada_send transport) s"

definition Ada_runTests ::
  "nat \<Rightarrow> 's Transport \<Rightarrow> 'v Interaction \<Rightarrow> ('v \<Rightarrow> 'r Interaction) \<Rightarrow> 's \<Rightarrow> (error + 'r) \<times> 's" where
  "Ada_runTests ERR_STILL_IN_CALL transport getVersion' runTests s =
     interact ERR_STILL_IN_CALL (priv_runTests getVersion' runTests) (Ada_send transport) s"

text \<open>
  \<open>getExtendedPublicKeys({paths})\<close>. \<open>validate(isArray(paths), ...)\<close> holds of every
  list; \<open>parseBIP32Path\<close> (\<open>./utils/parse\<close>) is a parameter.
\<close>

definition Ada_getExtendedPublicKeys ::
  "nat \<Rightarrow> 's Transport \<Rightarrow> 'v Interaction \<Rightarrow> ('v \<Rightarrow> 'p list \<Rightarrow> 'k list Interaction)
    \<Rightarrow> ('b \<Rightarrow> InvalidDataReason \<Rightarrow> error + 'p) \<Rightarrow> 'b list \<Rightarrow> 's \<Rightarrow> (error + 'k list) \<times> 's" where
  "Ada_getExtendedPublicKeys ERR_STILL_IN_CALL transport getVersion' getExtendedPublicKeys
      parseBIP32Path paths s =
     (case mapE (\<lambda>path. parseBIP32Path path INVALID_PATH) paths of
        Inl e \<Rightarrow> (Inl e, s)
      | Inr parsed \<Rightarrow>
          interact ERR_STILL_IN_CALL
            (priv_getExtendedPublicKeys getVersion' getExtendedPublicKeys parsed)
            (Ada_send transport) s)"

text \<open>\<open>array[0]\<close>: \<open>undefined\<close> (here \<open>None\<close>) on an empty array.\<close>

definition index0 :: "'a list \<Rightarrow> 'a option" where
  "index0 array = (case array of [] \<Rightarrow> None | x # _ \<Rightarrow> Some x)"

text \<open>\<open>getExtendedPublicKey({path})\<close>\<close>

definition Ada_getExtendedPublicKey ::
  "nat \<Rightarrow> 's Transport \<Rightarrow> 'v Interaction \<Rightarrow> ('v \<Rightarrow> 'p list \<Rightarrow> 'k list Interaction)
    \<Rightarrow> ('b \<Rightarrow> InvalidDataReason \<Rightarrow> error + 'p) \<Rightarrow> 'b \<Rightarrow> 's \<Rightarrow> (error + 'k option) \<times> 's" where
  "Ada_getExtendedPublicKey ERR_STILL_IN_CALL transport getVersion' getExtendedPublicKeys
      parseBIP32Path path s =
     (case Ada_getExtendedPublicKeys ERR_STILL_IN_CALL transport getVersion'
             getExtendedPublicKeys parseBIP32Path [path] s of
        (Inl e, s') \<Rightarrow> (Inl e, s')
      | (Inr keys, s') \<Rightarrow> (Inr (index0 keys), s'))"

definition Ada_deriveAddress ::
  "nat \<Rightarrow> 's Transport \<Rightarrow> 'v Interaction \<Rightarrow> ('v \<Rightarrow> 'p \<Rightarrow> 'r Interaction)
    \<Rightarrow> ('n \<Rightarrow> 'a \<Rightarrow> error + 'p) \<Rightarrow> 'n \<Rightarrow> 'a \<Rightarrow> 's \<Rightarrow> (error + 'r) \<times> 's" where
  "Ada_deriveAddress ERR_STILL_IN_CALL transport getVersion' deriveAddress parseAddress
      network address s =
     (case parseAddress network address of
        Inl e \<Rightarrow> (Inl e, s)
      | Inr parsedParams \<Rightarrow>
          interact ERR_STILL_IN_CALL (priv_deriveAddress getVersion' deriveAddress parsedParams)
            (Ada_send transport) s)"

definition Ada_showAddress ::
  "nat \<Rightarrow> 's Transport \<Rightarrow> 'v Interaction \<Rightarrow> ('v \<Rightarrow> 'p \<Rightarrow> 'r Interaction)
    \<Rightarrow> ('n \<Rightarrow> 'a \<Rightarrow> error + 'p) \<Rightarrow> 'n \<Rightarrow> 'a \<Rightarrow> 's \<Rightarrow> (error + 'r) \<times> 's" where
  "Ada_showAddress ERR_STILL_IN_CALL transport getVersion' showAddress parseAddress
      network address s =
     (case parseAddress network address of
        Inl e \<Rightarrow> (Inl e, s)
      | Inr parsedParams \<Rightarrow>
          interact ERR_STILL_IN_CALL (priv_showAddress getVersion' showAddress parsedParams)
            (Ada_send transport) s)"

definition Ada_signTransaction ::
  "nat \<Rightarrow> 's Transport \<Rightarrow> 'v Interaction \<Rightarrow> ('v \<Rightarrow> 'p \<Rightarrow> 'r Interaction)
    \<Rightarrow> ('q \<Rightarrow> error + 'p) \<Rightarrow> 'q \<Rightarrow> 's \<Rightarrow> (error + 'r) \<times> 's" where
  "Ada_signTransaction ERR_STILL_IN_CALL transport getVersion' signTransaction
      parseSignTransactionRequest request s =
     (case parseSignTransactionRequest request of
        Inl e \<Rightarrow> (Inl e, s)
      | Inr parsedRequest \<Rightarrow>
          interact ERR_STILL_IN_CALL (priv_signTx getVersion' signTransaction parsedRequest)
            (Ada_send transport) s)"

definition Ada_signOperationalCertificate ::
  "nat \<Rightarrow> 's Transport \<Rightarrow> 'v Interaction \<Rightarrow> ('v \<Rightarrow> 'p \<Rightarrow> 'r Interaction)
    \<Rightarrow> ('q \<Rightarrow> error + 'p) \<Rightarrow> 'q \<Rightarrow> 's \<Rightarrow> (error + 'r) \<times> 's" where
  "Ada_signOperationalCertificate ERR_STILL_IN_CALL transport getVersion'
      signOperationalCertificate parseOperationalCertificate request s =
     (case parseOperationalCertificate request of
        Inl e \<Rightarrow> (Inl e, s)
      | Inr parsedOperationalCertificate \<Rightarrow>
          interact ERR_STILL_IN_CALL
            (priv_signOperationalCertificate getVersion' signOperationalCertificate
               parsedOperationalCertificate)
            (Ada_send transport) s)"

definition Ada_signCIP36Vote ::
  "nat \<Rightarrow> 's Transport \<Rightarrow> 'v Interaction \<Rightarrow> ('v \<Rightarrow> 'p \<Rightarrow> 'r Interaction)
    \<Rightarrow> ('q \<Rightarrow> error + 'p) \<Rightarrow> 'q \<Rightarrow> 's \<Rightarrow> (error + 'r) \<times> 's" where
  "Ada_signCIP36Vote ERR_STILL_IN_CALL transport getVersion' signCVote parseCVote request s =
     (case parseCVote request of
        Inl e \<Rightarrow> (Inl e, s)
      | Inr parsedCVote \<Rightarrow>
          interact ERR_STILL_IN_CALL (priv_signCIP36Vote getVersion' signCVote parsedCVote)
            (Ada_send transport) s)"

definition Ada_deriveNativeScriptHash ::
  "nat \<Rightarrow> 's Transport \<Rightarrow> 'v Interaction \<Rightarrow> ('v \<Rightarrow> 'p \<Rightarrow> 'd \<Rightarrow> 'r Interaction)
    \<Rightarrow> ('q \<Rightarrow> error + 'p) \<Rightarrow> ('f \<Rightarrow> error + 'd) \<Rightarrow> 'q \<Rightarrow> 'f \<Rightarrow> 's \<Rightarrow> (error + 'r) \<times> 's" where
  "Ada_deriveNativeScriptHash ERR_STILL_IN_CALL transport getVersion' deriveNativeScriptHash
      parseNativeScript parseNativeScriptHashDisplayFormat script displayFormat s =
     (case parseNativeScript script of
        Inl e \<Rightarrow> (Inl e, s)
      | Inr parsedScript \<Rightarrow>
          (case parseNativeScriptHashDisplayFormat displayFormat of
             Inl e \<Rightarrow> (Inl e, s)
           | Inr parsedDisplayFormat \<Rightarrow>
               interact ERR_STILL_IN_CALL
                 (priv_deriveNativeScriptHash getVersion' deriveNativeScriptHash parsedScript
                    parsedDisplayFormat)
                 (Ada_send transport) s))"


section \<open>parsing.ts: errors, strings and the helpers it imports\<close>

text \<open>
  The messages \<open>TxErrors.*\<close> that \<open>parsing.ts\<close> throws, by their names, and
  \<^item> \<open>PRECONDITION_FAILED\<close>: a \<open>Precondition\<close> check called without a message;
  \<^item> \<open>JS_TypeError\<close>: reading a property of \<open>undefined\<close>;
  \<^item> \<open>ExternalError m\<close>: thrown by a function of another module with a message of its own.
\<close>

datatype TxError =
    CERTIFICATE_MISSING_PATH
  | CERTIFICATE_SUPERFLUOUS_POOL_KEY_HASH
  | CERTIFICATE_MISSING_POOL_KEY_HASH
  | CERTIFICATE_INVALID
  | CERTIFICATES_NOT_ARRAY
  | CERTIFICATES_COMBINATION_FORBIDDEN
  | INPUTS_NOT_ARRAY
  | INPUT_INVALID_TX_HASH
  | INPUT_WITH_PATH
  | OUTPUTS_NOT_ARRAY
  | OUTPUT_WITH_PATH
  | OUTPUT_INVALID_TOKEN_BUNDLE
  | OUTPUT_INVALID_TOKEN_POLICY
  | OUTPUT_INVALID_ASSET_NAME
  | FEE_INVALID
  | TTL_INVALID
  | WITHDRAWALS_NOT_ARRAY
  | WITHDRAWALS_FORBIDDEN
  | METADATA_INVALID
  | VALIDITY_INTERVAL_START_INVALID
  | CERTIFICATE_POOL_INVALID_MARGIN
  | CERTIFICATE_POOL_INVALID_MARGIN_DENOMINATOR
  | CERTIFICATE_POOL_INVALID_POOL_KEY_HASH
  | CERTIFICATE_POOL_INVALID_VRF_KEY_HASH
  | CERTIFICATE_POOL_INVALID_PLEDGE
  | CERTIFICATE_POOL_INVALID_COST
  | CERTIFICATE_POOL_INVALID_REWARD_ACCOUNT
  | CERTIFICATE_POOL_OWNERS_TOO_MANY
  | CERTIFICATE_POOL_RELAYS_TOO_MANY
  | CERTIFICATE_POOL_OWNERS_SINGLE_PATH
  | CERTIFICATE_POOL_OWNER_INVALID_PATH
  | CERTIFICATE_POOL_OWNER_INVALID_KEY_HASH
  | CERTIFICATE_POOL_OWNER_INCOMPLETE
  | CERTIFICATE_POOL_RELAY_INVALID_PORT
  | CERTIFICATE_POOL_RELAY_INVALID_IPV4
  | CERTIFICATE_POOL_RELAY_INVALID_IPV6
  | CERTIFICATE_POOL_RELAY_INVALID_DNS
  | CERTIFICATE_POOL_RELAY_INVALID_TYPE
  | CERTIFICATE_POOL_METADATA_INVALID_URL
  | CERTIFICATE_POOL_METADATA_INVALID_HASH
  | PRECONDITION_FAILED
  | JS_TypeError
  | ExternalError string

text \<open>Sequencing of steps that may throw.\<close>

definition bindE :: "'e + 'a \<Rightarrow> ('a \<Rightarrow> 'e + 'b) \<Rightarrow> 'e + 'b" where
  "bindE m f = (case m of Inl e \<Rightarrow> Inl e | Inr x \<Rightarrow> f x)"

text \<open>\<open>for (const x of xs) { body(x) }\<close> with a body that may throw.\<close>

fun forE :: "('a \<Rightarrow> 'e + unit) \<Rightarrow> 'a list \<Rightarrow> 'e + unit" where
  "forE body [] = Inr ()"
| "forE body (x # xs) = (case body x of Inl e \<Rightarrow> Inl e | Inr _ \<Rightarrow> forE body xs)"

text \<open>\<open>Precondition.check(cond, errMsg)\<close>\<close>

definition check :: "bool \<Rightarrow> TxError \<Rightarrow> TxError + unit" where
  "check cond errMsg = (if cond then Inr () else Inl errMsg)"

text \<open>\<open>c.charCodeAt(0)\<close>\<close>

definition charCode :: "char \<Rightarrow> nat" where
  "charCode c = of_char c"

definition isDigit :: "char \<Rightarrow> bool" where
  "isDigit c = (48 \<le> charCode c \<and> charCode c \<le> 57)"

definition isHexDigit :: "char \<Rightarrow> bool" where
  "isHexDigit c =
     (isDigit c \<or> (97 \<le> charCode c \<and> charCode c \<le> 102) \<or> (65 \<le> charCode c \<and> charCode c \<le> 70))"

definition digitValue :: "char \<Rightarrow> nat" where
  "digitValue c = charCode c - 48"

definition hexDigitValue :: "char \<Rightarrow> nat" where
  "hexDigitValue c =
     (if isDigit c then charCode c - 48
      else if 97 \<le> charCode c then charCode c - 87
      else charCode c - 55)"

text \<open>The number that a string of decimal digits denotes.\<close>

definition decimalValue :: "string \<Rightarrow> nat" where
  "decimalValue str = foldl (\<lambda>acc c. 10 * acc + digitValue c) 0 str"

definition isDecimal :: "string \<Rightarrow> bool" where
  "isDecimal str = (str \<noteq> [] \<and> list_all isDigit str)"

text \<open>\<open>str.split(separator)\<close> for a separator of one character, and \<open>parts.join("")\<close>.\<close>

fun split :: "char \<Rightarrow> string \<Rightarrow> string list" where
  "split separator [] = [[]]"
| "split separator (c # cs) =
     (if c = separator then [] # split separator cs
      else (case split separator cs of
              [] \<Rightarrow> [[c]]
            | part # parts \<Rightarrow> (c # part) # parts))"

definition join_empty :: "string list \<Rightarrow> string" where
  "join_empty parts = concat parts"

text \<open>
  The parts of \<open>./utils\<close> and \<open>./cardano\<close> that the spec does not determine are
  parameters of everything below:
  \<^item> the constants \<open>MAX_LOVELACE_SUPPLY_STR\<close> and the bound of the pool margin
    denominator;
  \<^item> which lengths \<open>checkIsValidPath\<close> allows;
  \<^item> \<open>utils.safe_parseInt\<close> and \<open>serializeOutputBasicParams\<close>, which return or throw.
\<close>

record Network =
  networkId :: nat
  protocolMagic :: nat

record 'o Utils =
  MAX_LOVELACE_SUPPLY_STR :: string
  POOL_MARGIN_DENOMINATOR_MAX_STR :: string
  pathLengthAllowed :: "nat \<Rightarrow> bool"
  safe_parseInt :: "string \<Rightarrow> TxError + int"
  serializeOutputBasicParams :: "'o \<Rightarrow> Network \<Rightarrow> TxError + Buffer"

text \<open>
  The checks of \<open>Precondition\<close> (module \<open>./utils\<close>) are not among the sources. Each is
  modelled from the spec, as the condition under which the check passes.
\<close>

text \<open>
  Modelled from the spec: \<open>Precondition.checkIsHexString\<close>. "Hex strings: [...] composed
  only of hex digits"; the digits encode bytes ("asset name (\<open>\<le>\<close> 32 bytes, hex-encoded)"),
  two digits each.
\<close>

definition isHexString :: "string \<Rightarrow> bool" where
  "isHexString str = (even (length str) \<and> list_all isHexDigit str)"

text \<open>
  Modelled from the spec: \<open>Precondition.checkIsHexStringOfLength\<close>. "Hex strings: exact
  required length, composed only of hex digits"; the length counts bytes, two digits
  each (a key hash of 28 bytes; an IPv6 address of 16 bytes, "exactly 32 hex
  characters").
\<close>

definition isHexStringOfLength :: "string \<Rightarrow> nat \<Rightarrow> bool" where
  "isHexStringOfLength str expectedByteLength =
     (isHexString str \<and> length str = expectedByteLength * 2)"

text \<open>
  Modelled from the spec: \<open>Precondition.checkIsValidUintStr\<close>. "Unsigned decimal-string
  amounts: numeric, non-negative, \<open>\<le>\<close> an explicit maximum"; the maximum is itself given
  as a decimal string.
\<close>

definition isValidUintStr :: "string \<Rightarrow> string \<Rightarrow> bool" where
  "isValidUintStr str maxValue = (isDecimal str \<and> decimalValue str \<le> decimalValue maxValue)"

text \<open>
  Modelled from the spec: \<open>MAX_UINT_64_STR\<close> and \<open>Precondition.checkIsUint64Str\<close>,
  "bounded unsigned 64-bit decimal strings".
\<close>

definition MAX_UINT_64_STR :: string where
  "MAX_UINT_64_STR = ''18446744073709551615''"

definition isUint64Str :: "string \<Rightarrow> bool" where
  "isUint64Str str = isValidUintStr str MAX_UINT_64_STR"

text \<open>
  Modelled from the spec: \<open>Precondition.checkIsPositiveUint64Str\<close>, a bounded unsigned
  64-bit decimal string that, by the name of the check, is not zero.
\<close>

definition isPositiveUint64Str :: "string \<Rightarrow> bool" where
  "isPositiveUint64Str str = (isUint64Str str \<and> 0 < decimalValue str)"

text \<open>
  Modelled from the spec: \<open>Precondition.checkIsValidAdaAmount\<close>, "\<open>\<le>\<close> an explicit maximum
  (the protocol's max lovelace supply)".
\<close>

definition isValidAdaAmount :: "'o Utils \<Rightarrow> string \<Rightarrow> bool" where
  "isValidAdaAmount u str = isValidUintStr str (MAX_LOVELACE_SUPPLY_STR u)"

text \<open>
  Modelled from the spec: \<open>Precondition.checkIsValidPoolMarginDenominator\<close>, "unless a
  different explicit bound applies (e.g., pool margin denominator bound)".
\<close>

definition isValidPoolMarginDenominator :: "'o Utils \<Rightarrow> string \<Rightarrow> bool" where
  "isValidPoolMarginDenominator u str = isValidUintStr str (POOL_MARGIN_DENOMINATOR_MAX_STR u)"

text \<open>
  Modelled from the spec: \<open>Precondition.checkIsUint32\<close> and \<open>Precondition.checkIsUint8\<close>,
  integers of 32 and of 8 bits without sign ("port \<open>\<in>\<close> [0, 65535]", "octets each \<open>\<in>\<close>
  [0,255]").
\<close>

definition isUint32 :: "int \<Rightarrow> bool" where
  "isUint32 n = (0 \<le> n \<and> n \<le> 4294967295)"

definition isUint8 :: "int \<Rightarrow> bool" where
  "isUint8 n = (0 \<le> n \<and> n \<le> 255)"

text \<open>A path is an array of numbers.\<close>

type_synonym BIP32Path = "int list"

text \<open>
  Modelled from the spec: \<open>Precondition.checkIsValidPath\<close>. "Path fields: is an array of
  unsigned 32-bit integers, length within operation-specific bounds"; an absent path
  (\<open>undefined\<close>) is not an array.
\<close>

definition isValidPath :: "'o Utils \<Rightarrow> BIP32Path option \<Rightarrow> bool" where
  "isValidPath u path =
     (case path of
        None \<Rightarrow> False
      | Some indexes \<Rightarrow> list_all isUint32 indexes \<and> pathLengthAllowed u (length indexes))"

text \<open>
  Modelled from the spec: \<open>hex_to_buf\<close> (\<open>./utils\<close>) turns hex digits into the bytes
  they encode, two digits a byte.
\<close>

fun hex_to_buf :: "string \<Rightarrow> Buffer" where
  "hex_to_buf (hi # lo # rest) = word_of_nat (16 * hexDigitValue hi + hexDigitValue lo) # hex_to_buf rest"
| "hex_to_buf _ = []"


section \<open>parsing.ts: the raw and the parsed data\<close>

text \<open>
  The raw types come from \<open>./Ada\<close> of that version, which is not among the sources: the
  records have the fields that \<open>parsing.ts\<close> reads, an optional field is an \<open>option\<close>.
  A field is named after its record and the name in the source
  (\<open>cert.poolKeyHashHex\<close> is \<open>cert_poolKeyHashHex\<close>).
\<close>

definition STAKE_REGISTRATION :: nat where "STAKE_REGISTRATION = 0"
definition STAKE_DEREGISTRATION :: nat where "STAKE_DEREGISTRATION = 1"
definition STAKE_DELEGATION :: nat where "STAKE_DELEGATION = 2"
definition STAKE_POOL_REGISTRATION :: nat where "STAKE_POOL_REGISTRATION = 3"

definition KEY_HASH_LENGTH :: nat where "KEY_HASH_LENGTH = 28"
definition TX_HASH_LENGTH :: nat where "TX_HASH_LENGTH = 32"
definition TOKEN_POLICY_LENGTH :: nat where "TOKEN_POLICY_LENGTH = 28"
definition TOKEN_NAME_LENGTH :: nat where "TOKEN_NAME_LENGTH = 32"
definition ASSET_GROUPS_MAX :: nat where "ASSET_GROUPS_MAX = 1000"
definition TOKENS_IN_GROUP_MAX :: nat where "TOKENS_IN_GROUP_MAX = 1000"
definition POOL_REGISTRATION_OWNERS_MAX :: nat where "POOL_REGISTRATION_OWNERS_MAX = 1000"
definition POOL_REGISTRATION_RELAYS_MAX :: nat where "POOL_REGISTRATION_RELAYS_MAX = 1000"

text \<open>\<open>RelayType\<close>\<close>

definition RelayType_SingleHostAddr :: nat where "RelayType_SingleHostAddr = 0"
definition RelayType_SingleHostName :: nat where "RelayType_SingleHostName = 1"
definition RelayType_MultiHostName :: nat where "RelayType_MultiHostName = 2"

text \<open>\<open>PoolParams['margin']\<close>, and \<open>ParsedMargin\<close>, which has the same two fields.\<close>

record Margin =
  numeratorStr :: string
  denominatorStr :: string

record PoolOwnerParams =
  stakingPath :: "BIP32Path option"
  stakingKeyHashHex :: "string option"

text \<open>The \<open>params\<close> of a relay: the fields of the three relay shapes together.\<close>

record RelayFields =
  relay_portNumber :: "int option"
  relay_ipv4 :: "string option"
  relay_ipv6 :: "string option"
  relay_dnsName :: "string option"

record RelayParams =
  relay_type :: nat
  relay_params :: RelayFields

record PoolMetadataParams =
  meta_metadataUrl :: string
  meta_metadataHashHex :: string

record PoolParams =
  pool_poolKeyHashHex :: string
  pool_vrfKeyHashHex :: string
  pool_pledgeStr :: string
  pool_costStr :: string
  pool_margin :: Margin
  pool_rewardAccountHex :: string
  pool_poolOwners :: "PoolOwnerParams list"
  pool_relays :: "RelayParams list"
  pool_metadata :: "PoolMetadataParams option"

record Certificate =
  cert_type :: nat
  cert_path :: "BIP32Path option"
  cert_poolKeyHashHex :: "string option"
  cert_poolRegistrationParams :: "PoolParams option"

record InputTypeUTxO =
  input_txHashHex :: string
  input_outputIndex :: int
  input_path :: "BIP32Path option"

record Token =
  token_assetNameHex :: string
  token_amountStr :: string

record AssetGroup =
  group_policyIdHex :: string
  group_tokens :: "Token list"

text \<open>
  An output: \<open>output_basic\<close> stands for the address and amount fields, which only
  \<open>serializeOutputBasicParams\<close> reads.
\<close>

record 'b TxOutput =
  output_basic :: 'b
  output_spendingPath :: "BIP32Path option"
  output_tokenBundle :: "AssetGroup list option"

record Withdrawal =
  withdrawal_path :: "BIP32Path option"
  withdrawal_amountStr :: string

text \<open>\<open>ParsedPoolOwner\<close>, \<open>ParsedPoolRelay\<close>, \<open>ParsedPoolMetadata\<close>, \<open>ParsedPoolParams\<close>, \<open>ParsedCertificate\<close>\<close>

datatype ParsedPoolOwner =
    PoolOwner_PATH BIP32Path
  | PoolOwner_KEY_HASH string

datatype ParsedPoolRelay =
    Relay_SingleHostAddr "int option" "Buffer option" "Buffer option"
  | Relay_SingleHostName "int option" string
  | Relay_MultiHostName string

record ParsedPoolMetadata =
  parsed_url :: string
  parsed_hashHex :: string

record ParsedPoolParams =
  parsed_keyHashHex :: string
  parsed_vrfHashHex :: string
  parsed_pledgeStr :: string
  parsed_costStr :: string
  parsed_margin :: Margin
  parsed_rewardAccountHex :: string
  parsed_owners :: "ParsedPoolOwner list"
  parsed_relays :: "ParsedPoolRelay list"
  parsed_metadata :: "ParsedPoolMetadata option"

datatype ParsedCertificate =
    Parsed_STAKE_REGISTRATION BIP32Path
  | Parsed_STAKE_DEREGISTRATION BIP32Path
  | Parsed_STAKE_DELEGATION BIP32Path string
  | Parsed_STAKE_POOL_REGISTRATION ParsedPoolParams

text \<open>The field \<open>type\<close> of a parsed certificate.\<close>

fun parsed_type :: "ParsedCertificate \<Rightarrow> nat" where
  "parsed_type (Parsed_STAKE_REGISTRATION _) = STAKE_REGISTRATION"
| "parsed_type (Parsed_STAKE_DEREGISTRATION _) = STAKE_DEREGISTRATION"
| "parsed_type (Parsed_STAKE_DELEGATION _ _) = STAKE_DELEGATION"
| "parsed_type (Parsed_STAKE_POOL_REGISTRATION _) = STAKE_POOL_REGISTRATION"

section \<open>parsing.ts: the parsers\<close>

definition parseAscii :: "string \<Rightarrow> TxError \<Rightarrow> TxError + string" where
  "parseAscii str err =
     (if \<not> list_all (\<lambda>c. charCode c \<ge> 32 \<and> charCode c \<le> 126) str then Inl err
      else Inr str)"

definition parseHexStringOfLength :: "string \<Rightarrow> nat \<Rightarrow> TxError \<Rightarrow> TxError + string" where
  "parseHexStringOfLength str len err =
     (if \<not> isHexStringOfLength str len then Inl err else Inr str)"

definition parseUint64_str :: "string \<Rightarrow> string \<Rightarrow> TxError \<Rightarrow> TxError + string" where
  "parseUint64_str str maxValue err =
     (if \<not> isValidUintStr str maxValue then Inl err else Inr str)"

definition parseBIP32Path :: "'o Utils \<Rightarrow> BIP32Path option \<Rightarrow> TxError \<Rightarrow> TxError + BIP32Path" where
  "parseBIP32Path u path err =
     (if \<not> isValidPath u path then Inl err
      else (case path of None \<Rightarrow> Inl err | Some indexes \<Rightarrow> Inr indexes))"

definition parseMargin :: "'o Utils \<Rightarrow> Margin \<Rightarrow> TxError + Margin" where
  "parseMargin u params =
     (let marginNumeratorStr = numeratorStr params;
          marginDenominatorStr = denominatorStr params
      in if \<not> isUint64Str marginNumeratorStr then Inl CERTIFICATE_POOL_INVALID_MARGIN
         else if \<not> isValidPoolMarginDenominator u marginDenominatorStr
           then Inl CERTIFICATE_POOL_INVALID_MARGIN_DENOMINATOR
         else if \<not> isValidUintStr marginNumeratorStr marginDenominatorStr
           then Inl CERTIFICATE_POOL_INVALID_MARGIN
         else Inr \<lparr>numeratorStr = marginNumeratorStr, denominatorStr = marginDenominatorStr\<rparr>)"

text \<open>
  \<open>if (params.stakingPath)\<close> holds of every array, also the empty one;
  \<open>if (params.stakingKeyHashHex)\<close> fails on the empty string.
\<close>

definition parsePoolOwnerParams :: "'o Utils \<Rightarrow> PoolOwnerParams \<Rightarrow> TxError + ParsedPoolOwner" where
  "parsePoolOwnerParams u params =
     (if stakingPath params \<noteq> None
      then bindE (parseBIP32Path u (stakingPath params) CERTIFICATE_POOL_OWNER_INVALID_PATH)
             (\<lambda>path. Inr (PoolOwner_PATH path))
      else (case stakingKeyHashHex params of
              Some (c # cs) \<Rightarrow>
                bindE (parseHexStringOfLength (c # cs) KEY_HASH_LENGTH
                         CERTIFICATE_POOL_OWNER_INVALID_KEY_HASH)
                  (\<lambda>hashHex. Inr (PoolOwner_KEY_HASH hashHex))
            | _ \<Rightarrow> Inl CERTIFICATE_POOL_OWNER_INCOMPLETE))"

definition parsePort :: "int \<Rightarrow> TxError \<Rightarrow> TxError + int" where
  "parsePort portNumber err =
     (if \<not> isUint32 portNumber then Inl err
      else if \<not> portNumber \<le> 65535 then Inl err
      else Inr portNumber)"

text \<open>
  \<open>parseIPv4\<close>: the loop parses and checks the four parts in turn; \<open>writeUInt8\<close> stores
  a value that \<open>checkIsUint8\<close> has accepted.
\<close>

definition parseIPv4 :: "'o Utils \<Rightarrow> string \<Rightarrow> TxError \<Rightarrow> TxError + Buffer" where
  "parseIPv4 u ipv4 err =
     (let ipParts = split (CHR ''.'') ipv4
      in if length ipParts \<noteq> 4 then Inl err
         else mapE (\<lambda>part. bindE (safe_parseInt u part)
                       (\<lambda>ipPart. if \<not> isUint8 ipPart then Inl err else Inr (word_of_int ipPart)))
                ipParts)"

definition parseIPv6 :: "string \<Rightarrow> TxError \<Rightarrow> TxError + Buffer" where
  "parseIPv6 ipv6 err =
     (let ipHex = join_empty (split (CHR '':'') ipv6)
      in if \<not> isHexStringOfLength ipHex 16 then Inl err
         else Inr (hex_to_buf ipHex))"

text \<open>An absent \<open>dnsName\<close> is not a string.\<close>

definition parseDnsName :: "string option \<Rightarrow> TxError \<Rightarrow> TxError + string" where
  "parseDnsName dnsName err =
     (case dnsName of
        None \<Rightarrow> Inl err
      | Some name \<Rightarrow>
          (if \<not> length name \<le> 64 then Inl err
           else if \<not> list_all (\<lambda>c. charCode c \<le> 127) name then Inl err
           else if \<not> list_all (\<lambda>c. charCode c \<ge> 32 \<and> charCode c \<le> 126) name then Inl err
           else Inr name))"

text \<open>\<open>x != null ? parse(x, err) : null\<close>\<close>

definition parseOptional :: "('a \<Rightarrow> TxError + 'b) \<Rightarrow> 'a option \<Rightarrow> TxError + 'b option" where
  "parseOptional parse x =
     (case x of None \<Rightarrow> Inr None | Some v \<Rightarrow> bindE (parse v) (\<lambda>r. Inr (Some r)))"

definition parsePoolRelayParams :: "'o Utils \<Rightarrow> RelayParams \<Rightarrow> TxError + ParsedPoolRelay" where
  "parsePoolRelayParams u relayParams =
     (let params = relay_params relayParams
      in if relay_type relayParams = RelayType_SingleHostAddr then
           bindE (parseOptional (\<lambda>n. parsePort n CERTIFICATE_POOL_RELAY_INVALID_PORT)
                    (relay_portNumber params)) (\<lambda>port.
           bindE (parseOptional (\<lambda>a. parseIPv4 u a CERTIFICATE_POOL_RELAY_INVALID_IPV4)
                    (relay_ipv4 params)) (\<lambda>ipv4.
           bindE (parseOptional (\<lambda>a. parseIPv6 a CERTIFICATE_POOL_RELAY_INVALID_IPV6)
                    (relay_ipv6 params)) (\<lambda>ipv6.
           Inr (Relay_SingleHostAddr port ipv4 ipv6))))
         else if relay_type relayParams = RelayType_SingleHostName then
           bindE (parseOptional (\<lambda>n. parsePort n CERTIFICATE_POOL_RELAY_INVALID_PORT)
                    (relay_portNumber params)) (\<lambda>port.
           bindE (parseDnsName (relay_dnsName params) CERTIFICATE_POOL_RELAY_INVALID_DNS) (\<lambda>dnsName.
           Inr (Relay_SingleHostName port dnsName)))
         else if relay_type relayParams = RelayType_MultiHostName then
           bindE (parseDnsName (relay_dnsName params) CERTIFICATE_POOL_RELAY_INVALID_DNS) (\<lambda>dnsName.
           Inr (Relay_MultiHostName dnsName))
         else Inl CERTIFICATE_POOL_RELAY_INVALID_TYPE)"

definition parsePoolMetadataParams ::
  "PoolMetadataParams option \<Rightarrow> TxError + ParsedPoolMetadata option" where
  "parsePoolMetadataParams params =
     (case params of
        None \<Rightarrow> Inr None
      | Some p \<Rightarrow>
          bindE (parseAscii (meta_metadataUrl p) CERTIFICATE_POOL_METADATA_INVALID_URL) (\<lambda>url.
          if \<not> length url \<le> 64 then Inl CERTIFICATE_POOL_METADATA_INVALID_URL
          else bindE (parseHexStringOfLength (meta_metadataHashHex p) 32
                        CERTIFICATE_POOL_METADATA_INVALID_HASH) (\<lambda>hashHex.
               Inr (Some \<lparr>parsed_url = url, parsed_hashHex = hashHex\<rparr>))))"

fun isPathOwner :: "ParsedPoolOwner \<Rightarrow> bool" where
  "isPathOwner (PoolOwner_PATH _) = True"
| "isPathOwner (PoolOwner_KEY_HASH _) = False"

definition parsePoolParams :: "'o Utils \<Rightarrow> PoolParams \<Rightarrow> TxError + ParsedPoolParams" where
  "parsePoolParams u params =
     bindE (parseHexStringOfLength (pool_poolKeyHashHex params) KEY_HASH_LENGTH
              CERTIFICATE_POOL_INVALID_POOL_KEY_HASH) (\<lambda>keyHashHex.
     bindE (parseHexStringOfLength (pool_vrfKeyHashHex params) 32
              CERTIFICATE_POOL_INVALID_VRF_KEY_HASH) (\<lambda>vrfHashHex.
     bindE (parseUint64_str (pool_pledgeStr params) (MAX_LOVELACE_SUPPLY_STR u)
              CERTIFICATE_POOL_INVALID_PLEDGE) (\<lambda>pledgeStr.
     bindE (parseUint64_str (pool_costStr params) (MAX_LOVELACE_SUPPLY_STR u)
              CERTIFICATE_POOL_INVALID_COST) (\<lambda>costStr.
     bindE (parseMargin u (pool_margin params)) (\<lambda>margin.
     bindE (parseHexStringOfLength (pool_rewardAccountHex params) 29
              CERTIFICATE_POOL_INVALID_REWARD_ACCOUNT) (\<lambda>rewardAccountHex.
     bindE (mapE (parsePoolOwnerParams u) (pool_poolOwners params)) (\<lambda>owners.
     bindE (mapE (parsePoolRelayParams u) (pool_relays params)) (\<lambda>relays.
     bindE (parsePoolMetadataParams (pool_metadata params)) (\<lambda>metadata.
     if \<not> length owners \<le> POOL_REGISTRATION_OWNERS_MAX
       then Inl CERTIFICATE_POOL_OWNERS_TOO_MANY
     else if \<not> length relays \<le> POOL_REGISTRATION_RELAYS_MAX
       then Inl CERTIFICATE_POOL_RELAYS_TOO_MANY
     else if \<not> length (filter isPathOwner owners) = 1
       then Inl CERTIFICATE_POOL_OWNERS_SINGLE_PATH
     else Inr \<lparr>parsed_keyHashHex = keyHashHex, parsed_vrfHashHex = vrfHashHex,
               parsed_pledgeStr = pledgeStr, parsed_costStr = costStr, parsed_margin = margin,
               parsed_rewardAccountHex = rewardAccountHex, parsed_owners = owners,
               parsed_relays = relays, parsed_metadata = metadata\<rparr>)))))))))"

text \<open>
  \<open>parseCertificate\<close>. In the delegation case an absent \<open>poolKeyHashHex\<close> is not a
  string; in the registration case \<open>cert.poolRegistrationParams!\<close> may be \<open>undefined\<close>,
  and \<open>parsePoolParams\<close> then fails on its first property access.
\<close>

definition parseCertificate :: "'o Utils \<Rightarrow> Certificate \<Rightarrow> TxError + ParsedCertificate" where
  "parseCertificate u cert =
     (if cert_type cert = STAKE_REGISTRATION \<or> cert_type cert = STAKE_DEREGISTRATION then
        (if \<not> isValidPath u (cert_path cert) then Inl CERTIFICATE_MISSING_PATH
         else if \<not> cert_poolKeyHashHex cert = None
           then Inl CERTIFICATE_SUPERFLUOUS_POOL_KEY_HASH
         else bindE (parseBIP32Path u (cert_path cert) CERTIFICATE_MISSING_PATH) (\<lambda>path.
              Inr (if cert_type cert = STAKE_REGISTRATION
                   then Parsed_STAKE_REGISTRATION path
                   else Parsed_STAKE_DEREGISTRATION path)))
      else if cert_type cert = STAKE_DELEGATION then
        (if \<not> isValidPath u (cert_path cert) then Inl CERTIFICATE_MISSING_PATH
         else (case cert_poolKeyHashHex cert of
                 None \<Rightarrow> Inl CERTIFICATE_MISSING_POOL_KEY_HASH
               | Some poolKeyHashHex \<Rightarrow>
                   (if \<not> isHexStringOfLength poolKeyHashHex KEY_HASH_LENGTH
                      then Inl CERTIFICATE_MISSING_POOL_KEY_HASH
                    else bindE (parseBIP32Path u (cert_path cert) CERTIFICATE_MISSING_PATH) (\<lambda>path.
                         bindE (parseHexStringOfLength poolKeyHashHex KEY_HASH_LENGTH
                                  CERTIFICATE_MISSING_POOL_KEY_HASH) (\<lambda>hashHex.
                         Inr (Parsed_STAKE_DELEGATION path hashHex))))))
      else if cert_type cert = STAKE_POOL_REGISTRATION then
        (case cert_poolRegistrationParams cert of
           None \<Rightarrow> Inl JS_TypeError
         | Some poolParams \<Rightarrow>
             bindE (parsePoolParams u poolParams) (\<lambda>pool.
             Inr (Parsed_STAKE_POOL_REGISTRATION pool)))
      else Inl CERTIFICATE_INVALID)"

text \<open>\<open>parseCertificates\<close>; \<open>checkIsArray\<close> holds of every list.\<close>

definition parseCertificates :: "'o Utils \<Rightarrow> Certificate list \<Rightarrow> TxError + ParsedCertificate list" where
  "parseCertificates u certificates =
     bindE (mapE (\<lambda>cert. parseCertificate u cert) certificates) (\<lambda>parsed.
     if \<not> (list_all (\<lambda>cert. parsed_type cert \<noteq> STAKE_POOL_REGISTRATION) parsed
            \<or> length parsed = 1)
       then Inl CERTIFICATES_COMBINATION_FORBIDDEN
     else Inr parsed)"


section \<open>parsing.ts: \<open>validateTransaction\<close>\<close>

text \<open>
  The sections of \<open>validateTransaction\<close>, each under the comment that heads it in the
  source (\<open>// inputs\<close>, \<open>// outputs\<close>, \<open>// fee\<close>, ...), in the order of the source.
  \<open>checkIsArray\<close> holds of every list. The flag is
  \<open>isSigningPoolRegistrationAsOwner\<close>.
\<close>

definition isSigningPoolRegistrationAsOwner :: "Certificate list \<Rightarrow> bool" where
  "isSigningPoolRegistrationAsOwner certificates =
     list_ex (\<lambda>cert. cert_type cert = STAKE_POOL_REGISTRATION) certificates"

definition validateInputs :: "bool \<Rightarrow> InputTypeUTxO list \<Rightarrow> TxError + unit" where
  "validateInputs signingPoolRegistration inputs =
     forE (\<lambda>input.
        if \<not> isHexStringOfLength (input_txHashHex input) TX_HASH_LENGTH
          then Inl INPUT_INVALID_TX_HASH
        else if signingPoolRegistration \<and> \<not> input_path input = None
          then Inl INPUT_WITH_PATH
        else Inr ()) inputs"

definition validateToken :: "Token \<Rightarrow> TxError + unit" where
  "validateToken token =
     (if \<not> isHexString (token_assetNameHex token) then Inl OUTPUT_INVALID_ASSET_NAME
      else if \<not> length (token_assetNameHex token) \<le> TOKEN_NAME_LENGTH * 2
        then Inl OUTPUT_INVALID_ASSET_NAME
      else if \<not> isUint64Str (token_amountStr token) then Inl PRECONDITION_FAILED
      else Inr ())"

definition validateAssetGroup :: "AssetGroup \<Rightarrow> TxError + unit" where
  "validateAssetGroup assetGroup =
     (if \<not> isHexStringOfLength (group_policyIdHex assetGroup) TOKEN_POLICY_LENGTH
        then Inl OUTPUT_INVALID_TOKEN_POLICY
      else if \<not> length (group_tokens assetGroup) \<le> TOKENS_IN_GROUP_MAX
        then Inl PRECONDITION_FAILED
      else forE validateToken (group_tokens assetGroup))"

definition validateOutputs ::
  "('b TxOutput) Utils \<Rightarrow> Network \<Rightarrow> bool \<Rightarrow> 'b TxOutput list \<Rightarrow> TxError + unit" where
  "validateOutputs u network signingPoolRegistration outputs =
     forE (\<lambda>output.
        bindE (serializeOutputBasicParams u output network) (\<lambda>_.
        if \<not> output_spendingPath output = None \<and> signingPoolRegistration
          then Inl OUTPUT_WITH_PATH
        else (case output_tokenBundle output of
                None \<Rightarrow> Inr ()
              | Some tokenBundle \<Rightarrow>
                  (if \<not> length tokenBundle \<le> ASSET_GROUPS_MAX then Inl PRECONDITION_FAILED
                   else forE validateAssetGroup tokenBundle)))) outputs"

definition validateFee :: "'o Utils \<Rightarrow> string \<Rightarrow> TxError + unit" where
  "validateFee u feeStr = (if \<not> isValidAdaAmount u feeStr then Inl FEE_INVALID else Inr ())"

definition validateTtl :: "string option \<Rightarrow> TxError + unit" where
  "validateTtl ttlStr =
     (case ttlStr of
        None \<Rightarrow> Inr ()
      | Some ttl \<Rightarrow> (if \<not> isPositiveUint64Str ttl then Inl TTL_INVALID else Inr ()))"

definition validateWithdrawals :: "'o Utils \<Rightarrow> bool \<Rightarrow> Withdrawal list \<Rightarrow> TxError + unit" where
  "validateWithdrawals u signingPoolRegistration withdrawals =
     (if signingPoolRegistration \<and> length withdrawals > 0 then Inl WITHDRAWALS_FORBIDDEN
      else forE (\<lambda>withdrawal.
             if \<not> isValidAdaAmount u (withdrawal_amountStr withdrawal) then Inl PRECONDITION_FAILED
             else if \<not> isValidPath u (withdrawal_path withdrawal) then Inl PRECONDITION_FAILED
             else Inr ()) withdrawals)"

definition validateMetadata :: "string option \<Rightarrow> TxError + unit" where
  "validateMetadata metadataHashHex =
     (case metadataHashHex of
        None \<Rightarrow> Inr ()
      | Some hashHex \<Rightarrow>
          (if \<not> isHexStringOfLength hashHex 32 then Inl METADATA_INVALID else Inr ()))"

definition validateValidityIntervalStart :: "string option \<Rightarrow> TxError + unit" where
  "validateValidityIntervalStart validityIntervalStartStr =
     (case validityIntervalStartStr of
        None \<Rightarrow> Inr ()
      | Some start \<Rightarrow>
          (if \<not> isPositiveUint64Str start then Inl VALIDITY_INTERVAL_START_INVALID
           else Inr ()))"

text \<open>
  \<open>validateTransaction\<close> returns nothing or throws. It takes no transport: nothing in
  it can reach the device.
\<close>

definition validateTransaction ::
  "('b TxOutput) Utils \<Rightarrow> Network \<Rightarrow> InputTypeUTxO list \<Rightarrow> 'b TxOutput list \<Rightarrow> string
    \<Rightarrow> string option \<Rightarrow> Certificate list \<Rightarrow> Withdrawal list \<Rightarrow> string option \<Rightarrow> string option
    \<Rightarrow> TxError + unit" where
  "validateTransaction u network inputs outputs feeStr ttlStr certificates withdrawals
      metadataHashHex validityIntervalStartStr =
     (let signingPoolRegistration = isSigningPoolRegistrationAsOwner certificates
      in bindE (validateInputs signingPoolRegistration inputs) (\<lambda>_.
         bindE (validateOutputs u network signingPoolRegistration outputs) (\<lambda>_.
         bindE (validateFee u feeStr) (\<lambda>_.
         bindE (validateTtl ttlStr) (\<lambda>_.
         bindE (parseCertificates u certificates) (\<lambda>_.
         bindE (validateWithdrawals u signingPoolRegistration withdrawals) (\<lambda>_.
         bindE (validateMetadata metadataHashHex) (\<lambda>_.
         validateValidityIntervalStart validityIntervalStartStr))))))))"

section \<open>The frames that reach the transport\<close>

text \<open>
  A transport under observation: \<open>recording transport\<close> answers every frame as
  \<open>transport\<close> does and keeps, next to the state of \<open>transport\<close>, the list of the frames
  that it was sent, in the order in which they arrived.
\<close>

type_synonym frame = "byte \<times> byte \<times> byte \<times> byte \<times> Buffer"

definition recording :: "'s Transport \<Rightarrow> ('s \<times> frame list) Transport" where
  "recording transport args st =
     (case transport args (fst st) of (r, s') \<Rightarrow> (r, (s', snd st @ [args])))"


section \<open>Sample data\<close>

text \<open>
  Values for the parameters, used where a statement is evaluated on a concrete input:
  45 000 000 000 000 000 for the largest amount, 1 000 000 000 000 000 000 for the largest
  margin denominator, paths of at most ten indexes, and a \<open>safe_parseInt\<close> that reads
  decimal digits. \<open>serializeOutputBasicParams\<close> accepts every output.
\<close>

definition sampleUtils :: "(unit TxOutput) Utils" where
  "sampleUtils =
     \<lparr>MAX_LOVELACE_SUPPLY_STR = ''45000000000000000'',
      POOL_MARGIN_DENOMINATOR_MAX_STR = ''1000000000000000000'',
      pathLengthAllowed = (\<lambda>n. n \<le> 10),
      safe_parseInt = (\<lambda>str. if isDecimal str then Inr (int (decimalValue str))
                              else Inl (ExternalError ''safe_parseInt'')),
      serializeOutputBasicParams = (\<lambda>output network. Inr [])\<rparr>"

definition sampleKeyHash :: string where
  "sampleKeyHash = ''13381d918ec0283ceeff60f7f4fc21e1540e053ccf8a77307a7a32ad''"

definition sampleVrfKeyHash :: string where
  "sampleVrfKeyHash = ''07821cd344d7fd7e3ae5f2ed863218cb979ff1d59e50c4276bdc479b0d084450''"

definition sampleRewardAccount :: string where
  "sampleRewardAccount = ''e1794d9b3408c9fb67b950a48a0690f070f117e9978f7fc1d120fc58ad''"

definition samplePath :: BIP32Path where
  "samplePath = [2147485500, 2147485463, 2147483648, 2, 0]"

definition samplePool :: PoolParams where
  "samplePool =
     \<lparr>pool_poolKeyHashHex = sampleKeyHash,
      pool_vrfKeyHashHex = sampleVrfKeyHash,
      pool_pledgeStr = ''50000000000'',
      pool_costStr = ''340000000'',
      pool_margin = \<lparr>numeratorStr = ''3'', denominatorStr = ''100''\<rparr>,
      pool_rewardAccountHex = sampleRewardAccount,
      pool_poolOwners = [\<lparr>stakingPath = Some samplePath, stakingKeyHashHex = None\<rparr>],
      pool_relays = [],
      pool_metadata = None\<rparr>"

definition samplePoolCertificate :: Certificate where
  "samplePoolCertificate =
     \<lparr>cert_type = STAKE_POOL_REGISTRATION, cert_path = None, cert_poolKeyHashHex = None,
      cert_poolRegistrationParams = Some samplePool\<rparr>"

definition sampleStakeCertificate :: Certificate where
  "sampleStakeCertificate =
     \<lparr>cert_type = STAKE_REGISTRATION, cert_path = Some samplePath, cert_poolKeyHashHex = None,
      cert_poolRegistrationParams = None\<rparr>"

definition sampleWithdrawal :: Withdrawal where
  "sampleWithdrawal = \<lparr>withdrawal_path = Some samplePath, withdrawal_amountStr = ''1000''\<rparr>"

definition sampleNetwork :: Network where
  "sampleNetwork = \<lparr>networkId = 1, protocolMagic = 764824073\<rparr>"


definition sampleParsedPool :: ParsedPoolParams where
  "sampleParsedPool =
     \<lparr>parsed_keyHashHex = sampleKeyHash,
      parsed_vrfHashHex = sampleVrfKeyHash,
      parsed_pledgeStr = ''50000000000'',
      parsed_costStr = ''340000000'',
      parsed_margin = \<lparr>numeratorStr = ''3'', denominatorStr = ''100''\<rparr>,
      parsed_rewardAccountHex = sampleRewardAccount,
      parsed_owners = [PoolOwner_PATH samplePath],
      parsed_relays = [],
      parsed_metadata = None\<rparr>"

definition sampleInput :: InputTypeUTxO where
  "sampleInput =
     \<lparr>input_txHashHex = ''1af8fa0b754ff99253d983894e63a2b09cbb56c833ba18c3384210163f63dcfc'',
      input_outputIndex = 0, input_path = None\<rparr>"

definition sampleOutput :: "unit TxOutput" where
  "sampleOutput = \<lparr>output_basic = (), output_spendingPath = None, output_tokenBundle = None\<rparr>"

text \<open>
  Sample devices for \<open>Ada.ts\<close>. The state of each is the number of calls made so far.
  \<open>0x6e04\<close> stands for \<open>ERR_STILL_IN_CALL\<close>.
  \<^item> \<open>busyTransport i\<close> throws an error with that status code on call number \<open>i\<close> (from 0)
    and answers every other call with the request's data, followed by the status
    \<open>0x9000\<close>;
  \<^item> \<open>alwaysBusyTransport\<close> throws it on every call;
  \<^item> \<open>unpluggedTransport\<close> throws an error with no status code on every call;
  \<^item> \<open>changingTransport\<close> answers instruction 0 with the version \<open>n.0.0\<close>, where \<open>n\<close> is the
    number of calls made before (a device that is replaced between calls), and any
    other instruction with the request's data, followed by the status \<open>0x9000\<close>;
  \<^item> \<open>sampleTransport\<close> answers instruction 0 with four bytes and any other
    instruction with the request's data, followed by the status \<open>0x9000\<close>.
\<close>

definition sample_ERR_STILL_IN_CALL :: nat where
  "sample_ERR_STILL_IN_CALL = 0x6e04"

definition busyTransport :: "nat \<Rightarrow> nat Transport" where
  "busyTransport i args n =
     (case args of (cla', ins', p1', p2', data') \<Rightarrow>
        (if n = i then Inl (TransportStatusError sample_ERR_STILL_IN_CALL)
         else Inr (data' @ [0x90, 0x00]),
         Suc n))"

definition alwaysBusyTransport :: "nat Transport" where
  "alwaysBusyTransport args n = (Inl (TransportStatusError sample_ERR_STILL_IN_CALL), Suc n)"

definition unpluggedTransport :: "nat Transport" where
  "unpluggedTransport args n = (Inl (TransportError ''unplugged''), Suc n)"

definition changingTransport :: "nat Transport" where
  "changingTransport args n =
     (case args of (cla', ins', p1', p2', data') \<Rightarrow>
        (Inr ((if ins' = 0 then [of_nat n, 0, 0, 0] else data') @ [0x90, 0x00]), Suc n))"

definition sampleTransport :: "nat Transport" where
  "sampleTransport args n =
     (case args of (cla', ins', p1', p2', data') \<Rightarrow>
        (Inr ((if ins' = 0 then [6, 1, 2, 0] else data') @ [0x90, 0x00]), Suc n))"

definition sampleVersionRequest :: SendParams where
  "sampleVersionRequest =
     \<lparr>ins = 0x00, p1 = 0x00, p2 = 0x00, data = [], expectedResponseLength = Some 4\<rparr>"

definition sampleLongRequest :: SendParams where
  "sampleLongRequest =
     \<lparr>ins = 0x00, p1 = 0x00, p2 = 0x00, data = [], expectedResponseLength = Some 6\<rparr>"

definition sampleDecodeVersion :: "Buffer \<Rightarrow> Buffer Interaction" where
  "sampleDecodeVersion response = Return response"

definition sampleRequest :: "Buffer \<Rightarrow> SendParams" where
  "sampleRequest payload =
     \<lparr>ins = 0x10, p1 = 0x00, p2 = 0x00, data = payload, expectedResponseLength = None\<rparr>"

text \<open>A sample operation of one exchange: it returns the version and the response.\<close>

definition sampleOperation :: "Buffer \<Rightarrow> Buffer \<Rightarrow> (Buffer \<times> Buffer) Interaction" where
  "sampleOperation version payload =
     Yield (sampleRequest payload) (\<lambda>response. Return (version, response))"

definition sampleOperation2 :: "Buffer \<Rightarrow> Buffer \<Rightarrow> Buffer \<Rightarrow> (Buffer \<times> Buffer) Interaction" where
  "sampleOperation2 version script format = sampleOperation version (script @ format)"

text \<open>A sample key derivation: one exchange for each path, a key for each path.\<close>

fun sampleGetKeys :: "Buffer \<Rightarrow> Buffer list \<Rightarrow> Buffer list Interaction" where
  "sampleGetKeys version [] = Return []"
| "sampleGetKeys version (path # rest) =
     Yield (sampleRequest path)
       (\<lambda>response. yield_star (sampleGetKeys version rest) (\<lambda>keys. Return (response # keys)))"

definition sampleParsePath :: "Buffer \<Rightarrow> InvalidDataReason \<Rightarrow> error + Buffer" where
  "sampleParsePath path reason =
     (if 3 \<le> length path then Inr path else Inl (InvalidDataError reason))"

definition sampleParse :: "Buffer \<Rightarrow> error + Buffer" where
  "sampleParse request = Inr request"

definition sampleParseAddress :: "Network \<Rightarrow> Buffer \<Rightarrow> error + Buffer" where
  "sampleParseAddress network' request = Inr request"

section \<open>Verification: the chunks of \<open>setTransaction\<close>\<close>

declare framesFrom.simps [simp del] setTransaction_loop.simps [simp del]

lemma chunkSize_59: "chunkSize = 59"
  by (simp add: chunkSize_def MAX_APDU_SIZE_def OFFSET_CDATA_def)

lemma chunkSize_pos: "0 < chunkSize"
  by (simp add: chunkSize_59)

lemma apdu_data_frameAt: "apdu_data (frameAt rawTx i) = take chunkSize (drop i rawTx)"
  by (simp add: frameAt_def slice_def Let_def)

lemma concat_framesFrom: "concat (map apdu_data (framesFrom rawTx i)) = drop i rawTx"
proof (induction rawTx i rule: framesFrom.induct)
  case (1 rawTx i)
  show ?case
  proof (cases "i < length rawTx")
    case True
    have "concat (map apdu_data (framesFrom rawTx i))
            = take chunkSize (drop i rawTx) @ drop (i + chunkSize) rawTx"
      using True "1.IH" by (subst framesFrom.simps) (simp add: apdu_data_frameAt)
    also have "\<dots> = take chunkSize (drop i rawTx) @ drop chunkSize (drop i rawTx)"
      by (simp add: add.commute)
    also have "\<dots> = drop i rawTx"
      by (rule append_take_drop_id)
    finally show ?thesis .
  next
    case False
    then show ?thesis by (subst framesFrom.simps) simp
  qed
qed

lemma ceil_step:
  fixes c d :: nat
  assumes "0 < c" "0 < d"
  shows "(d + (c - 1)) div c = Suc ((d - c + (c - 1)) div c)"
proof (cases "c \<le> d")
  case True
  define x where "x = d - c + (c - 1)"
  have "d + (c - 1) = x + c" using True by (simp add: x_def)
  moreover have "(x + c) div c = x div c + 1"
    using assms(1) by (intro div_add_self2) simp
  ultimately show ?thesis by (simp add: x_def)
next
  case False
  then have z: "d - c = 0" by arith
  have "(d + (c - 1)) div c = 1"
  proof (rule div_nat_eqI)
    show "c * 1 \<le> d + (c - 1)" using assms by arith
    show "d + (c - 1) < c * Suc 1" using False assms by simp
  qed
  moreover have "(c - 1) div c = 0" using assms(1) by simp
  ultimately show ?thesis by (simp only: z) simp
qed

lemma length_framesFrom:
  "length (framesFrom rawTx i) = (length rawTx - i + (chunkSize - 1)) div chunkSize"
proof (induction rawTx i rule: framesFrom.induct)
  case (1 rawTx i)
  show ?case
  proof (cases "i < length rawTx")
    case True
    then have d: "0 < length rawTx - i" by simp
    have "length (framesFrom rawTx i) = Suc (length (framesFrom rawTx (i + chunkSize)))"
      using True by (subst framesFrom.simps) simp
    also have "\<dots> = Suc ((length rawTx - i - chunkSize + (chunkSize - 1)) div chunkSize)"
      by (simp only: "1.IH" [OF True] diff_diff_left)
    also have "\<dots> = (length rawTx - i + (chunkSize - 1)) div chunkSize"
      by (rule ceil_step [OF chunkSize_pos d, symmetric])
    finally show ?thesis .
  next
    case False
    then have "framesFrom rawTx i = []" by (subst framesFrom.simps) simp
    moreover have "(chunkSize - 1) div chunkSize = 0" using chunkSize_pos by simp
    ultimately show ?thesis using False by simp
  qed
qed

lemma nth_framesFrom:
  "k < length (framesFrom rawTx i) \<Longrightarrow> framesFrom rawTx i ! k = frameAt rawTx (i + k * chunkSize)"
proof (induction rawTx i arbitrary: k rule: framesFrom.induct)
  case (1 rawTx i)
  show ?case
  proof (cases "i < length rawTx")
    case True
    have unfold: "framesFrom rawTx i = frameAt rawTx i # framesFrom rawTx (i + chunkSize)"
      using True by (subst framesFrom.simps) simp
    show ?thesis
    proof (cases k)
      case 0
      then show ?thesis by (simp add: unfold)
    next
      case (Suc j)
      with "1.prems" unfold have "j < length (framesFrom rawTx (i + chunkSize))" by simp
      with "1.IH" True have "framesFrom rawTx (i + chunkSize) ! j = frameAt rawTx (i + chunkSize + j * chunkSize)"
        by simp
      then show ?thesis by (simp add: unfold Suc add.assoc)
    qed
  next
    case False
    with "1.prems" show ?thesis by (subst (asm) framesFrom.simps) simp
  qed
qed

lemma setTransaction_loop_sent:
  "setTransaction_loop send rawTx i response sent s = (r, sent', s') \<Longrightarrow>
     (\<exists>fs. sent' = sent @ fs \<and> prefix fs (framesFrom rawTx i) \<and>
           ((\<exists>v. r = Inr v) \<longrightarrow> fs = framesFrom rawTx i))"
proof (induction send rawTx i response sent s rule: setTransaction_loop.induct)
  case (1 send rawTx i response sent s)
  note run = "1.prems"[unfolded setTransaction_loop.simps[of send rawTx i response sent s]]
  show ?case
  proof (cases "i < length rawTx")
    case False
    then have "framesFrom rawTx i = []" by (subst framesFrom.simps) simp
    with run False show ?thesis by simp
  next
    case True
    have ff: "framesFrom rawTx i = frameAt rawTx i # framesFrom rawTx (i + chunkSize)"
      using True by (subst framesFrom.simps) simp
    obtain o1 s1 where snd: "send (frameAt rawTx i) s = (o1, s1)" by (cases "send (frameAt rawTx i) s")
    show ?thesis
    proof (cases o1)
      case (Inl e)
      with run True snd have "r = Inl (TransportThrew e) \<and> sent' = sent @ [frameAt rawTx i]"
        by simp
      then show ?thesis by (simp add: ff)
    next
      case (Inr res)
      show ?thesis
      proof (cases "readResponse res response :: 'a legacy_error + LegacyResponse option")
        case (Inl e)
        with run True snd Inr have "r = Inl e \<and> sent' = sent @ [frameAt rawTx i]"
          by simp
        then show ?thesis by (simp add: ff)
      next
        case rr: (Inr response')
        with run True snd Inr
        have "setTransaction_loop send rawTx (i + chunkSize) response' (sent @ [frameAt rawTx i]) s1 = (r, sent', s')"
          by simp
        from "1.IH"[OF True refl snd[symmetric] Inr rr this]
        obtain fs where "sent' = (sent @ [frameAt rawTx i]) @ fs" "prefix fs (framesFrom rawTx (i + chunkSize))"
          "(\<exists>v. r = Inr v) \<longrightarrow> fs = framesFrom rawTx (i + chunkSize)" by blast
        then show ?thesis by (auto simp: ff)
      qed
    qed
  qed
qed

lemma setTransaction_sent:
  assumes "setTransaction send rawTx s = (r, sent, s')"
  shows "prefix sent (framesFrom rawTx 0)"
    and "r = Inr response \<Longrightarrow> sent = framesFrom rawTx 0"
  using setTransaction_loop_sent [OF assms [unfolded setTransaction_def]] by auto

text \<open>
  The markers of the frames: the first frame has \<open>P1_FIRST\<close>, the last of several
  \<open>P1_LAST\<close>, the ones between \<open>P1_NEXT\<close>; \<open>P2\<close> is \<open>P2_SINGLE_TX\<close> for a payload shorter
  than a chunk and \<open>P2_MULTI_TX\<close> otherwise, while several frames are sent only for a
  payload longer than a chunk.
\<close>

lemma last_frame_iff:
  assumes "k < length (framesFrom rawTx 0)"
  shows "k * chunkSize + chunkSize \<ge> length rawTx \<longleftrightarrow> Suc k = length (framesFrom rawTx 0)"
proof -
  define n where "n = length (framesFrom rawTx 0)"
  define L where "L = length rawTx"
  have n: "n = (L + 58) div 59"
    using length_framesFrom [of rawTx 0] by (simp add: chunkSize_59 n_def L_def)
  have lower: "59 * n \<le> L + 58"
    unfolding n by (rule times_div_less_eq_dividend)
  have upper: "L + 58 < 59 * n + 59"
    unfolding n using dividend_less_times_div [of 59 "L + 58"] by simp
  from assms have "k < n" by (simp add: n_def)
  with lower upper have "k * 59 + 59 \<ge> L \<longleftrightarrow> Suc k = n" by arith
  then show ?thesis by (simp add: chunkSize_59 n_def L_def)
qed

lemma frame_markers:
  assumes "k < length (framesFrom rawTx 0)"
  shows "apdu_p1 (framesFrom rawTx 0 ! k) =
           (if k = 0 then P1_FIRST
            else if Suc k = length (framesFrom rawTx 0) then P1_LAST else P1_NEXT)
       \<and> apdu_p2 (framesFrom rawTx 0 ! k) =
           (if length rawTx < chunkSize then P2_SINGLE_TX else P2_MULTI_TX)"
proof -
  have "framesFrom rawTx 0 ! k = frameAt rawTx (k * chunkSize)"
    using nth_framesFrom [OF assms] by simp
  moreover have "k * chunkSize = 0 \<longleftrightarrow> k = 0"
    using chunkSize_pos by simp
  ultimately show ?thesis
    using last_frame_iff [OF assms] by (simp add: frameAt_def Let_def)
qed

lemma several_frames_iff:
  "1 < length (framesFrom rawTx 0) \<longleftrightarrow> chunkSize < length rawTx"
proof -
  define n where "n = length (framesFrom rawTx 0)"
  define L where "L = length rawTx"
  have n: "n = (L + 58) div 59"
    using length_framesFrom [of rawTx 0] by (simp add: chunkSize_59 n_def L_def)
  have lower: "59 * n \<le> L + 58"
    unfolding n by (rule times_div_less_eq_dividend)
  have upper: "L + 58 < 59 * n + 59"
    unfolding n using dividend_less_times_div [of 59 "L + 58"] by simp
  from lower upper have "1 < n \<longleftrightarrow> 59 < L" by arith
  then show ?thesis by (simp add: chunkSize_59 n_def L_def)
qed

lemma prefix_concat_map:
  "prefix xs ys \<Longrightarrow> prefix (concat (map f xs)) (concat (map f ys))"
  by (auto simp: prefix_def)

lemma readResponse_short: "length res \<le> 4 \<Longrightarrow> readResponse res response = Inr response"
  by (simp add: readResponse_def)

lemma setTransaction_loop_returns:
  assumes answers: "\<And>frame s. \<exists>res s'. send frame s = (Inr res, s') \<and> length res \<le> 4"
  shows "\<exists>sent' s'. setTransaction_loop send rawTx i response sent s = (Inr response, sent', s')"
  using answers
proof (induction send rawTx i response sent s rule: setTransaction_loop.induct)
  case (1 send rawTx i response sent s)
  show ?case
  proof (cases "i < length rawTx")
    case False
    then show ?thesis by (subst setTransaction_loop.simps) simp
  next
    case True
    from "1.prems" obtain res s1 where
      snd: "send (frameAt rawTx i) s = (Inr res, s1)" and short: "length res \<le> 4"
      by blast
    note rr = readResponse_short [OF short, of response]
    from "1.IH" [OF True refl snd [symmetric] refl rr "1.prems"]
    obtain sent' s' where
      "setTransaction_loop send rawTx (i + chunkSize) response (sent @ [frameAt rawTx i]) s1
         = (Inr response, sent', s')"
      by blast
    then show ?thesis
      using True snd
      by (subst setTransaction_loop.simps) (simp add: Let_def readResponse_short [OF short])
  qed
qed

text \<open>
  A call returns when the transport answers every frame with a response of at most
  four bytes (the bare status, say): no response is then read for outputs. It throws
  when the transport throws, or when a longer response ends before the outputs that it
  announces.
\<close>

lemma setTransaction_returns:
  assumes "\<And>frame s. \<exists>res s'. send frame s = (Inr res, s') \<and> length res \<le> 4"
  shows "\<exists>sent s'. setTransaction send rawTx s = (Inr None, sent, s')"
  unfolding setTransaction_def using assms by (rule setTransaction_loop_returns)

text \<open>
  C3. The chunk size is 59. In every call of \<open>setTransaction\<close> the frames reach the
  transport in order, the \<open>k\<close>-th of them with the bytes of \<open>rawTx\<close> from offset \<open>59 k\<close>
  on, at most the ceiling of \<open>L / 59\<close> of them, and their payloads, concatenated in the
  order in which they were sent, are the beginning of \<open>rawTx\<close>. In every call that
  returns (rather than throws) the concatenated payloads are all of \<open>rawTx\<close> and the
  number of frames is the ceiling of \<open>L / 59\<close>. For an empty \<open>rawTx\<close> that is 0: no frame
  is sent.
\<close>

theorem setTransaction_chunks:
  assumes "setTransaction send rawTx s = (r, sent, s')"
  shows "chunkSize = 59
    \<and> (\<forall>k < length sent.
          apdu_data (sent ! k) = slice rawTx (k * chunkSize) (k * chunkSize + chunkSize))
    \<and> length sent \<le> (length rawTx + (chunkSize - 1)) div chunkSize
    \<and> prefix (concat (map apdu_data sent)) rawTx
    \<and> ((\<exists>response. r = Inr response) \<longrightarrow>
          concat (map apdu_data sent) = rawTx
          \<and> length sent = (length rawTx + (chunkSize - 1)) div chunkSize)
    \<and> (length rawTx = 0 \<longrightarrow> sent = [])"
proof -
  have frames: "length (framesFrom rawTx 0) = (length rawTx + (chunkSize - 1)) div chunkSize"
    by (simp add: length_framesFrom)
  have pre: "prefix sent (framesFrom rawTx 0)"
    by (rule setTransaction_sent(1) [OF assms])
  then have len: "length sent \<le> (length rawTx + (chunkSize - 1)) div chunkSize"
    using frames prefix_length_le by fastforce
  have nth: "sent ! k = framesFrom rawTx 0 ! k" if "k < length sent" for k
    using pre that by (auto simp: prefix_def nth_append)
  have order: "apdu_data (sent ! k) = slice rawTx (k * chunkSize) (k * chunkSize + chunkSize)"
    if "k < length sent" for k
  proof -
    from that len frames have "k < length (framesFrom rawTx 0)" by simp
    then show ?thesis
      using nth [OF that] nth_framesFrom [of k rawTx 0]
      by (simp add: apdu_data_frameAt slice_def)
  qed
  have start: "prefix (concat (map apdu_data sent)) rawTx"
    using prefix_concat_map [OF pre, of apdu_data] by (simp add: concat_framesFrom)
  have all: "concat (map apdu_data sent) = rawTx
      \<and> length sent = (length rawTx + (chunkSize - 1)) div chunkSize"
    if "\<exists>response. r = Inr response"
  proof -
    from that obtain response where "r = Inr response" by blast
    then have "sent = framesFrom rawTx 0"
      by (rule setTransaction_sent(2) [OF assms])
    then show ?thesis by (simp add: concat_framesFrom frames)
  qed
  have empty: "sent = []" if "length rawTx = 0"
    using that len chunkSize_pos by simp
  from chunkSize_59 order len start all empty show ?thesis by blast
qed

lemma setTransaction_acceptAll_60:
  "setTransaction acceptAll (replicate 60 1) 0 =
     (Inr None, [frameAt (replicate 60 1) 0, frameAt (replicate 60 1) 59], 2)"
proof -
  have l: "length (replicate 60 (1::byte)) = 60" by simp
  have r: "readResponse [0x90, 0x00] None = (Inr None :: unit legacy_error + LegacyResponse option)"
    by (simp add: readResponse_def)
  have step3: "setTransaction_loop acceptAll (replicate 60 1) 118 None fs (Suc (Suc 0)) =
     (Inr None, fs, Suc (Suc 0))" for fs
    by (subst setTransaction_loop.simps) (simp only: l, simp)
  have step2: "setTransaction_loop acceptAll (replicate 60 1) 59 None fs (Suc 0) =
     (Inr None, fs @ [frameAt (replicate 60 1) 59], Suc (Suc 0))" for fs
    by (subst setTransaction_loop.simps) (simp add: acceptAll_def r chunkSize_59 step3)
  show ?thesis
    unfolding setTransaction_def
    by (subst setTransaction_loop.simps) (simp add: acceptAll_def r chunkSize_59 step2)
qed

lemma readResponse_truncated:
  "readResponse [1, 1, 0x41, 0x90, 0x00] None
     = (Inl RangeError :: unit legacy_error + LegacyResponse option)"
  by (simp add: readResponse_def readUInt32LE_def MAX_ADDR_PRINT_LENGTH_def Let_def)

lemma setTransaction_truncatedAnswer_60:
  "setTransaction truncatedAnswer (replicate 60 1) 0 =
     (Inl RangeError, [frameAt (replicate 60 1) 0], 1)"
  unfolding setTransaction_def
  by (subst setTransaction_loop.simps)
     (simp add: truncatedAnswer_def readResponse_truncated chunkSize_59)

theorem setTransaction_chunks_witness:
  "setTransaction acceptAll (replicate 60 1) 0 =
     (Inr None, [frameAt (replicate 60 1) 0, frameAt (replicate 60 1) 59], 2)
   \<and> concat (map apdu_data [frameAt (replicate 60 1) 0, frameAt (replicate 60 1) 59])
       = replicate 60 1
   \<and> length [frameAt (replicate 60 1) 0, frameAt (replicate 60 1) 59]
       = (length (replicate 60 (1::byte)) + (chunkSize - 1)) div chunkSize
   \<and> setTransaction truncatedAnswer (replicate 60 1) 0 =
     (Inl RangeError, [frameAt (replicate 60 1) 0], 1)
   \<and> length [frameAt (replicate 60 1) 0]
       \<le> (length (replicate 60 (1::byte)) + (chunkSize - 1)) div chunkSize
   \<and> prefix (concat (map apdu_data [frameAt (replicate 60 1) 0])) (replicate 60 1)"
proof -
  note returned = setTransaction_chunks [OF setTransaction_acceptAll_60]
  note thrown = setTransaction_chunks [OF setTransaction_truncatedAnswer_60]
  have "\<exists>response. (Inr None :: unit legacy_error + LegacyResponse option) = Inr response"
    by blast
  with returned have
    "concat (map apdu_data [frameAt (replicate 60 1) 0, frameAt (replicate 60 1) 59])
       = replicate 60 1
     \<and> length [frameAt (replicate 60 1) 0, frameAt (replicate 60 1) 59]
       = (length (replicate 60 (1::byte)) + (chunkSize - 1)) div chunkSize"
    by blast
  moreover from thrown have
    "length [frameAt (replicate 60 1) 0]
       \<le> (length (replicate 60 (1::byte)) + (chunkSize - 1)) div chunkSize
     \<and> prefix (concat (map apdu_data [frameAt (replicate 60 1) 0])) (replicate 60 1)"
    by blast
  ultimately show ?thesis
    using setTransaction_acceptAll_60 setTransaction_truncatedAnswer_60 by blast
qed

text \<open>
  The claim has one frame for an empty payload; the loop does not run at all, and no
  frame is sent.
\<close>

theorem setTransaction_empty_counterexample:
  "setTransaction acceptAll [] 0 = (Inr None, [], 0)
   \<and> length (fst (snd (setTransaction acceptAll [] 0))) \<noteq> 1"
proof -
  have "setTransaction acceptAll [] 0 = (Inr None, [], 0)"
    unfolding setTransaction_def by (subst setTransaction_loop.simps) simp
  then show ?thesis by simp
qed

text \<open>
  C4. A payload of exactly 59 bytes fits in one chunk; \<open>setTransaction\<close> sends that one
  frame with \<open>P1_FIRST\<close> and \<open>P2_MULTI_TX\<close>, while the claim has \<open>P2_SINGLE_TX\<close> for a
  payload of one frame.
\<close>

theorem setTransaction_full_chunk_is_multi:
  "setTransaction acceptAll (replicate 59 0) 0 =
     (Inr None,
      [\<lparr>apdu_cla = LEGACY_CLA, apdu_ins = INS_SET_TX, apdu_p1 = P1_FIRST,
        apdu_p2 = P2_MULTI_TX, apdu_data = replicate 59 0\<rparr>],
      1)
   \<and> P2_MULTI_TX \<noteq> P2_SINGLE_TX"
proof -
  have l: "length (replicate 59 (0::byte)) = 59" by simp
  have "setTransaction_loop acceptAll (replicate 59 0) 59 None fs (Suc 0) =
     (Inr None, fs, Suc 0)" for fs
    by (subst setTransaction_loop.simps) (simp only: l, simp)
  moreover have "readResponse [0x90, 0x00] None = (Inr None :: unit legacy_error + LegacyResponse option)"
    by (simp add: readResponse_def)
  moreover have "frameAt (replicate 59 0) 0 =
      \<lparr>apdu_cla = LEGACY_CLA, apdu_ins = INS_SET_TX, apdu_p1 = P1_FIRST,
       apdu_p2 = P2_MULTI_TX, apdu_data = replicate 59 0\<rparr>"
    by (simp add: frameAt_def slice_def chunkSize_59 Let_def)
  ultimately have "setTransaction acceptAll (replicate 59 0) 0 =
     (Inr None,
      [\<lparr>apdu_cla = LEGACY_CLA, apdu_ins = INS_SET_TX, apdu_p1 = P1_FIRST,
        apdu_p2 = P2_MULTI_TX, apdu_data = replicate 59 0\<rparr>],
      1)"
    unfolding setTransaction_def
    by (subst setTransaction_loop.simps) (simp add: acceptAll_def chunkSize_59)
  then show ?thesis by (simp add: P2_MULTI_TX_def P2_SINGLE_TX_def)
qed


section \<open>Verification: certificates and \<open>validateTransaction\<close>\<close>

lemma bindE_simps [simp]:
  "bindE (Inl e) f = Inl e"
  "bindE (Inr x) f = f x"
  by (simp_all add: bindE_def)

lemma bindE_eq_Inr: "bindE m f = Inr y \<longleftrightarrow> (\<exists>x. m = Inr x \<and> f x = Inr y)"
  by (cases m) simp_all

lemma parseBIP32Path_Inr: "parseBIP32Path u path err = Inr p \<Longrightarrow> path = Some p"
  by (auto simp: parseBIP32Path_def split: if_splits option.splits)

lemma parseCertificate_type:
  assumes "parseCertificate u cert = Inr parsed"
  shows "parsed_type parsed = cert_type cert"
  using assms
  by (auto simp: parseCertificate_def bindE_eq_Inr split: if_splits option.splits)

lemma mapE_parseCertificate_types:
  "mapE (parseCertificate u) certificates = Inr parsed \<Longrightarrow>
     map parsed_type parsed = map cert_type certificates"
proof (induction certificates arbitrary: parsed)
  case Nil
  then show ?case by simp
next
  case (Cons cert certificates)
  from Cons.prems obtain p ps where
    p: "parseCertificate u cert = Inr p" and
    ps: "mapE (parseCertificate u) certificates = Inr ps" and
    parsed: "parsed = p # ps"
    by (auto split: sum.splits)
  from Cons.IH [OF ps] parseCertificate_type [OF p] parsed show ?case by simp
qed

lemma mapE_length: "mapE f xs = Inr ys \<Longrightarrow> length ys = length xs"
  by (induction xs arbitrary: ys) (auto split: sum.splits)

lemma list_all_parsed_type:
  assumes "map parsed_type parsed = map cert_type certificates"
  shows "list_all (\<lambda>cert. parsed_type cert \<noteq> t) parsed \<longleftrightarrow> \<not> list_ex (\<lambda>cert. cert_type cert = t) certificates"
proof -
  have "list_all (\<lambda>cert. parsed_type cert \<noteq> t) parsed \<longleftrightarrow> (\<forall>x \<in> set (map parsed_type parsed). x \<noteq> t)"
    by (simp add: list_all_iff)
  also have "\<dots> \<longleftrightarrow> (\<forall>x \<in> set (map cert_type certificates). x \<noteq> t)"
    by (simp only: assms)
  also have "\<dots> \<longleftrightarrow> \<not> list_ex (\<lambda>cert. cert_type cert = t) certificates"
    by (simp add: list_ex_iff)
  finally show ?thesis .
qed

lemma parseCertificates_eq:
  "parseCertificates u certificates =
     (case mapE (parseCertificate u) certificates of
        Inl e \<Rightarrow> Inl e
      | Inr parsed \<Rightarrow>
          if list_ex (\<lambda>cert. cert_type cert = STAKE_POOL_REGISTRATION) certificates
             \<and> length certificates \<noteq> 1
          then Inl CERTIFICATES_COMBINATION_FORBIDDEN else Inr parsed)"
proof (cases "mapE (parseCertificate u) certificates")
  case (Inl e)
  then show ?thesis by (simp add: parseCertificates_def)
next
  case (Inr parsed)
  note types = mapE_parseCertificate_types [OF Inr]
  show ?thesis
    using Inr list_all_parsed_type [OF types, of STAKE_POOL_REGISTRATION] mapE_length [OF Inr]
    by (simp add: parseCertificates_def)
qed

subsection \<open>The sample data, evaluated\<close>

lemmas char_defs = isHexDigit_def isDigit_def digitValue_def charCode_def
lemmas string_defs = isHexStringOfLength_def isHexString_def isValidUintStr_def isDecimal_def
  decimalValue_def char_defs

lemma sample_hashes:
  "isHexStringOfLength sampleKeyHash KEY_HASH_LENGTH"
  "isHexStringOfLength sampleVrfKeyHash 32"
  "isHexStringOfLength sampleRewardAccount 29"
  by (simp_all add: string_defs sampleKeyHash_def sampleVrfKeyHash_def sampleRewardAccount_def
        KEY_HASH_LENGTH_def)

lemma decimalValue_MAX_UINT_64_STR: "decimalValue MAX_UINT_64_STR = 2 ^ 64 - 1"
  by (simp add: decimalValue_def digitValue_def charCode_def MAX_UINT_64_STR_def)

lemma sample_amounts:
  "isValidUintStr ''50000000000'' (MAX_LOVELACE_SUPPLY_STR sampleUtils)"
  "isValidUintStr ''340000000'' (MAX_LOVELACE_SUPPLY_STR sampleUtils)"
  "isValidAdaAmount sampleUtils ''1000''"
  by (simp_all add: isValidAdaAmount_def string_defs sampleUtils_def)

lemma sample_margin:
  "parseMargin sampleUtils \<lparr>numeratorStr = ''3'', denominatorStr = ''100''\<rparr>
     = Inr \<lparr>numeratorStr = ''3'', denominatorStr = ''100''\<rparr>"
  by (simp add: parseMargin_def isUint64Str_def isValidPoolMarginDenominator_def string_defs
        MAX_UINT_64_STR_def sampleUtils_def)

lemma sample_path: "isValidPath sampleUtils (Some samplePath)"
  by (simp add: isValidPath_def isUint32_def samplePath_def sampleUtils_def)

lemma parse_samplePool: "parsePoolParams sampleUtils samplePool = Inr sampleParsedPool"
  by (simp add: parsePoolParams_def samplePool_def sampleParsedPool_def parseHexStringOfLength_def
        parseUint64_str_def sample_hashes sample_amounts sample_margin parsePoolOwnerParams_def
        parseBIP32Path_def sample_path parsePoolMetadataParams_def
        POOL_REGISTRATION_OWNERS_MAX_def POOL_REGISTRATION_RELAYS_MAX_def)

lemma parse_samplePoolCertificate:
  "parseCertificate sampleUtils samplePoolCertificate
     = Inr (Parsed_STAKE_POOL_REGISTRATION sampleParsedPool)"
  by (simp add: parseCertificate_def samplePoolCertificate_def parse_samplePool
        STAKE_REGISTRATION_def STAKE_DEREGISTRATION_def STAKE_DELEGATION_def
        STAKE_POOL_REGISTRATION_def)

lemma parse_sampleStakeCertificate:
  "parseCertificate sampleUtils sampleStakeCertificate = Inr (Parsed_STAKE_REGISTRATION samplePath)"
  by (simp add: parseCertificate_def sampleStakeCertificate_def sample_path parseBIP32Path_def
        STAKE_REGISTRATION_def)

lemma parse_pathless_certificate:
  "parseCertificate sampleUtils (sampleStakeCertificate\<lparr>cert_path := None\<rparr>)
     = Inl CERTIFICATE_MISSING_PATH"
  by (simp add: parseCertificate_def sampleStakeCertificate_def isValidPath_def
        STAKE_REGISTRATION_def)

lemma samplePool_type: "cert_type samplePoolCertificate = STAKE_POOL_REGISTRATION"
  by (simp add: samplePoolCertificate_def)

text \<open>
  C1. \<open>parseCertificates\<close> first parses every certificate, in the order of the list, and
  the first certificate that does not parse decides the error. When every certificate
  of the list parses, a list that contains a stake pool registration together with
  another certificate fails with \<open>CERTIFICATES_COMBINATION_FORBIDDEN\<close>; and a list of
  exactly one stake pool registration certificate that parses is accepted.
\<close>

theorem parseCertificates_combination:
  "(mapE (parseCertificate u) certificates = Inl e \<longrightarrow> parseCertificates u certificates = Inl e)
   \<and> (mapE (parseCertificate u) certificates = Inr parsed
        \<and> list_ex (\<lambda>cert. cert_type cert = STAKE_POOL_REGISTRATION) certificates
        \<and> length certificates > 1
      \<longrightarrow> parseCertificates u certificates = Inl CERTIFICATES_COMBINATION_FORBIDDEN)
   \<and> (parseCertificate u cert = Inr p \<and> cert_type cert = STAKE_POOL_REGISTRATION
      \<longrightarrow> parseCertificates u [cert] = Inr [p])"
  by (simp add: parseCertificates_eq)

theorem parseCertificates_combination_witness:
  "mapE (parseCertificate sampleUtils) [sampleStakeCertificate\<lparr>cert_path := None\<rparr>, samplePoolCertificate]
      = Inl CERTIFICATE_MISSING_PATH
   \<and> parseCertificates sampleUtils [sampleStakeCertificate\<lparr>cert_path := None\<rparr>, samplePoolCertificate]
      = Inl CERTIFICATE_MISSING_PATH
   \<and> mapE (parseCertificate sampleUtils) [samplePoolCertificate, sampleStakeCertificate]
      = Inr [Parsed_STAKE_POOL_REGISTRATION sampleParsedPool, Parsed_STAKE_REGISTRATION samplePath]
   \<and> list_ex (\<lambda>cert. cert_type cert = STAKE_POOL_REGISTRATION) [samplePoolCertificate, sampleStakeCertificate]
   \<and> length [samplePoolCertificate, sampleStakeCertificate] > 1
   \<and> parseCertificates sampleUtils [samplePoolCertificate, sampleStakeCertificate]
      = Inl CERTIFICATES_COMBINATION_FORBIDDEN
   \<and> parseCertificate sampleUtils samplePoolCertificate = Inr (Parsed_STAKE_POOL_REGISTRATION sampleParsedPool)
   \<and> cert_type samplePoolCertificate = STAKE_POOL_REGISTRATION
   \<and> parseCertificates sampleUtils [samplePoolCertificate]
      = Inr [Parsed_STAKE_POOL_REGISTRATION sampleParsedPool]"
  using parseCertificates_combination
          [of sampleUtils "[sampleStakeCertificate\<lparr>cert_path := None\<rparr>, samplePoolCertificate]"
              CERTIFICATE_MISSING_PATH]
        parseCertificates_combination
          [of sampleUtils "[samplePoolCertificate, sampleStakeCertificate]" _
              "[Parsed_STAKE_POOL_REGISTRATION sampleParsedPool, Parsed_STAKE_REGISTRATION samplePath]"
              samplePoolCertificate "Parsed_STAKE_POOL_REGISTRATION sampleParsedPool"]
  by (simp add: parse_samplePoolCertificate parse_sampleStakeCertificate parse_pathless_certificate
        samplePool_type)

text \<open>
  A stake pool registration together with a stake registration that has no path: the
  list fails with the error of the second certificate, not with the forbidden
  combination.
\<close>

theorem parseCertificates_invalid_member_counterexample:
  "list_ex (\<lambda>cert. cert_type cert = STAKE_POOL_REGISTRATION)
      [samplePoolCertificate, sampleStakeCertificate\<lparr>cert_path := None\<rparr>]
   \<and> length [samplePoolCertificate, sampleStakeCertificate\<lparr>cert_path := None\<rparr>] > 1
   \<and> parseCertificates sampleUtils [samplePoolCertificate, sampleStakeCertificate\<lparr>cert_path := None\<rparr>]
      = Inl CERTIFICATE_MISSING_PATH
   \<and> CERTIFICATE_MISSING_PATH \<noteq> CERTIFICATES_COMBINATION_FORBIDDEN"
  by (simp add: parseCertificates_def parse_samplePoolCertificate parse_pathless_certificate
        samplePool_type)


subsection \<open>\<open>validateTransaction\<close>\<close>

text \<open>
  C5. \<open>validateTransaction\<close> runs its sections in the order inputs, outputs, fee, ttl,
  certificates, withdrawals, and the first section that fails decides the error. So a
  transaction whose certificates contain a stake pool registration and whose
  withdrawals are not empty fails with \<open>WITHDRAWALS_FORBIDDEN\<close> when the five sections
  before the withdrawals pass, and with the error of the first of them that fails
  otherwise. \<open>validateTransaction\<close> has no access to the transport.
\<close>

theorem validateTransaction_withdrawals_forbidden:
  "(isSigningPoolRegistrationAsOwner certificates
      \<and> withdrawals \<noteq> []
      \<and> validateInputs True inputs = Inr ()
      \<and> validateOutputs u network True outputs = Inr ()
      \<and> validateFee u feeStr = Inr ()
      \<and> validateTtl ttlStr = Inr ()
      \<and> parseCertificates u certificates = Inr parsed
    \<longrightarrow> validateTransaction u network inputs outputs feeStr ttlStr certificates withdrawals
          metadataHashHex validityIntervalStartStr = Inl WITHDRAWALS_FORBIDDEN)
   \<and> (validateInputs (isSigningPoolRegistrationAsOwner certificates) inputs = Inl e
    \<longrightarrow> validateTransaction u network inputs outputs feeStr ttlStr certificates withdrawals
          metadataHashHex validityIntervalStartStr = Inl e)
   \<and> (validateInputs (isSigningPoolRegistrationAsOwner certificates) inputs = Inr ()
      \<and> validateOutputs u network (isSigningPoolRegistrationAsOwner certificates) outputs = Inl e
    \<longrightarrow> validateTransaction u network inputs outputs feeStr ttlStr certificates withdrawals
          metadataHashHex validityIntervalStartStr = Inl e)
   \<and> (validateInputs (isSigningPoolRegistrationAsOwner certificates) inputs = Inr ()
      \<and> validateOutputs u network (isSigningPoolRegistrationAsOwner certificates) outputs = Inr ()
      \<and> validateFee u feeStr = Inl e
    \<longrightarrow> validateTransaction u network inputs outputs feeStr ttlStr certificates withdrawals
          metadataHashHex validityIntervalStartStr = Inl e)
   \<and> (validateInputs (isSigningPoolRegistrationAsOwner certificates) inputs = Inr ()
      \<and> validateOutputs u network (isSigningPoolRegistrationAsOwner certificates) outputs = Inr ()
      \<and> validateFee u feeStr = Inr ()
      \<and> validateTtl ttlStr = Inl e
    \<longrightarrow> validateTransaction u network inputs outputs feeStr ttlStr certificates withdrawals
          metadataHashHex validityIntervalStartStr = Inl e)
   \<and> (validateInputs (isSigningPoolRegistrationAsOwner certificates) inputs = Inr ()
      \<and> validateOutputs u network (isSigningPoolRegistrationAsOwner certificates) outputs = Inr ()
      \<and> validateFee u feeStr = Inr ()
      \<and> validateTtl ttlStr = Inr ()
      \<and> parseCertificates u certificates = Inl e
    \<longrightarrow> validateTransaction u network inputs outputs feeStr ttlStr certificates withdrawals
          metadataHashHex validityIntervalStartStr = Inl e)"
proof (intro conjI impI)
  assume "isSigningPoolRegistrationAsOwner certificates
      \<and> withdrawals \<noteq> []
      \<and> validateInputs True inputs = Inr ()
      \<and> validateOutputs u network True outputs = Inr ()
      \<and> validateFee u feeStr = Inr ()
      \<and> validateTtl ttlStr = Inr ()
      \<and> parseCertificates u certificates = Inr parsed"
  then show "validateTransaction u network inputs outputs feeStr ttlStr certificates withdrawals
          metadataHashHex validityIntervalStartStr = Inl WITHDRAWALS_FORBIDDEN"
    by (simp add: validateTransaction_def validateWithdrawals_def)
qed (simp_all add: validateTransaction_def)

lemma sample_stages:
  "validateInputs b [sampleInput] = Inr ()"
  "validateOutputs sampleUtils sampleNetwork b [sampleOutput] = Inr ()"
  "validateFee sampleUtils ''1000'' = Inr ()"
  "validateTtl None = Inr ()"
  by (simp_all add: validateInputs_def validateOutputs_def validateFee_def validateTtl_def
        sampleInput_def sampleOutput_def sampleUtils_def string_defs isValidAdaAmount_def
        TX_HASH_LENGTH_def)

lemma sample_failing_stages:
  "validateInputs True [sampleInput\<lparr>input_txHashHex := ''1af8''\<rparr>] = Inl INPUT_INVALID_TX_HASH"
  "validateOutputs sampleUtils sampleNetwork True
     [sampleOutput\<lparr>output_spendingPath := Some samplePath\<rparr>] = Inl OUTPUT_WITH_PATH"
  "validateFee sampleUtils '''' = Inl FEE_INVALID"
  "validateTtl (Some ''0'') = Inl TTL_INVALID"
  by (simp_all add: validateInputs_def validateOutputs_def validateFee_def validateTtl_def
        sampleInput_def sampleOutput_def sampleUtils_def string_defs isValidAdaAmount_def
        isPositiveUint64Str_def isUint64Str_def MAX_UINT_64_STR_def TX_HASH_LENGTH_def)

lemma sample_signing:
  "isSigningPoolRegistrationAsOwner [samplePoolCertificate]"
  "isSigningPoolRegistrationAsOwner [samplePoolCertificate, sampleStakeCertificate]"
  by (simp_all add: isSigningPoolRegistrationAsOwner_def samplePool_type)

lemma parse_sample_certificates:
  "parseCertificates sampleUtils [samplePoolCertificate]
     = Inr [Parsed_STAKE_POOL_REGISTRATION sampleParsedPool]"
  "parseCertificates sampleUtils [samplePoolCertificate, sampleStakeCertificate]
     = Inl CERTIFICATES_COMBINATION_FORBIDDEN"
  by (simp_all add: parseCertificates_eq parse_samplePoolCertificate parse_sampleStakeCertificate
        samplePool_type)

theorem validateTransaction_withdrawals_forbidden_witness:
  "isSigningPoolRegistrationAsOwner [samplePoolCertificate]
   \<and> [sampleWithdrawal] \<noteq> []
   \<and> validateInputs True [sampleInput] = Inr ()
   \<and> validateOutputs sampleUtils sampleNetwork True [sampleOutput] = Inr ()
   \<and> validateFee sampleUtils ''1000'' = Inr ()
   \<and> validateTtl None = Inr ()
   \<and> parseCertificates sampleUtils [samplePoolCertificate]
       = Inr [Parsed_STAKE_POOL_REGISTRATION sampleParsedPool]
   \<and> validateTransaction sampleUtils sampleNetwork [sampleInput] [sampleOutput] ''1000'' None
        [samplePoolCertificate] [sampleWithdrawal] None None = Inl WITHDRAWALS_FORBIDDEN
   \<and> validateInputs True [sampleInput\<lparr>input_txHashHex := ''1af8''\<rparr>] = Inl INPUT_INVALID_TX_HASH
   \<and> validateTransaction sampleUtils sampleNetwork [sampleInput\<lparr>input_txHashHex := ''1af8''\<rparr>]
        [sampleOutput] ''1000'' None [samplePoolCertificate] [sampleWithdrawal] None None
       = Inl INPUT_INVALID_TX_HASH
   \<and> validateOutputs sampleUtils sampleNetwork True
        [sampleOutput\<lparr>output_spendingPath := Some samplePath\<rparr>] = Inl OUTPUT_WITH_PATH
   \<and> validateTransaction sampleUtils sampleNetwork [sampleInput]
        [sampleOutput\<lparr>output_spendingPath := Some samplePath\<rparr>] ''1000'' None
        [samplePoolCertificate] [sampleWithdrawal] None None
       = Inl OUTPUT_WITH_PATH
   \<and> validateFee sampleUtils '''' = Inl FEE_INVALID
   \<and> validateTransaction sampleUtils sampleNetwork [sampleInput] [sampleOutput] '''' None
        [samplePoolCertificate] [sampleWithdrawal] None None
       = Inl FEE_INVALID
   \<and> validateTtl (Some ''0'') = Inl TTL_INVALID
   \<and> validateTransaction sampleUtils sampleNetwork [sampleInput] [sampleOutput] ''1000''
        (Some ''0'') [samplePoolCertificate] [sampleWithdrawal] None None
       = Inl TTL_INVALID
   \<and> parseCertificates sampleUtils [samplePoolCertificate, sampleStakeCertificate]
       = Inl CERTIFICATES_COMBINATION_FORBIDDEN
   \<and> validateTransaction sampleUtils sampleNetwork [sampleInput] [sampleOutput] ''1000'' None
        [samplePoolCertificate, sampleStakeCertificate] [sampleWithdrawal] None None
       = Inl CERTIFICATES_COMBINATION_FORBIDDEN"
proof -
  note pass = validateTransaction_withdrawals_forbidden
    [where u = sampleUtils and network = sampleNetwork and inputs = "[sampleInput]"
       and outputs = "[sampleOutput]" and feeStr = "''1000''" and ttlStr = None
       and certificates = "[samplePoolCertificate]" and withdrawals = "[sampleWithdrawal]"
       and metadataHashHex = None and validityIntervalStartStr = None
       and parsed = "[Parsed_STAKE_POOL_REGISTRATION sampleParsedPool]"]
  note bad_input = validateTransaction_withdrawals_forbidden
    [where u = sampleUtils and network = sampleNetwork
       and inputs = "[sampleInput\<lparr>input_txHashHex := ''1af8''\<rparr>]"
       and outputs = "[sampleOutput]" and feeStr = "''1000''" and ttlStr = None
       and certificates = "[samplePoolCertificate]" and withdrawals = "[sampleWithdrawal]"
       and metadataHashHex = None and validityIntervalStartStr = None
       and e = INPUT_INVALID_TX_HASH]
  note bad_output = validateTransaction_withdrawals_forbidden
    [where u = sampleUtils and network = sampleNetwork and inputs = "[sampleInput]"
       and outputs = "[sampleOutput\<lparr>output_spendingPath := Some samplePath\<rparr>]"
       and feeStr = "''1000''" and ttlStr = None
       and certificates = "[samplePoolCertificate]" and withdrawals = "[sampleWithdrawal]"
       and metadataHashHex = None and validityIntervalStartStr = None
       and e = OUTPUT_WITH_PATH]
  note bad_fee = validateTransaction_withdrawals_forbidden
    [where u = sampleUtils and network = sampleNetwork and inputs = "[sampleInput]"
       and outputs = "[sampleOutput]" and feeStr = "''''" and ttlStr = None
       and certificates = "[samplePoolCertificate]" and withdrawals = "[sampleWithdrawal]"
       and metadataHashHex = None and validityIntervalStartStr = None
       and e = FEE_INVALID]
  note bad_ttl = validateTransaction_withdrawals_forbidden
    [where u = sampleUtils and network = sampleNetwork and inputs = "[sampleInput]"
       and outputs = "[sampleOutput]" and feeStr = "''1000''" and ttlStr = "Some ''0''"
       and certificates = "[samplePoolCertificate]" and withdrawals = "[sampleWithdrawal]"
       and metadataHashHex = None and validityIntervalStartStr = None
       and e = TTL_INVALID]
  note bad_certificates = validateTransaction_withdrawals_forbidden
    [where u = sampleUtils and network = sampleNetwork and inputs = "[sampleInput]"
       and outputs = "[sampleOutput]" and feeStr = "''1000''" and ttlStr = None
       and certificates = "[samplePoolCertificate, sampleStakeCertificate]"
       and withdrawals = "[sampleWithdrawal]"
       and metadataHashHex = None and validityIntervalStartStr = None
       and e = CERTIFICATES_COMBINATION_FORBIDDEN]
  have r1: "validateTransaction sampleUtils sampleNetwork [sampleInput] [sampleOutput] ''1000'' None
        [samplePoolCertificate] [sampleWithdrawal] None None = Inl WITHDRAWALS_FORBIDDEN"
    using pass sample_signing(1) sample_stages parse_sample_certificates(1) by simp
  have r2: "validateTransaction sampleUtils sampleNetwork [sampleInput\<lparr>input_txHashHex := ''1af8''\<rparr>]
        [sampleOutput] ''1000'' None [samplePoolCertificate] [sampleWithdrawal] None None
       = Inl INPUT_INVALID_TX_HASH"
    using bad_input sample_signing(1) sample_failing_stages(1) by simp
  have r3: "validateTransaction sampleUtils sampleNetwork [sampleInput]
        [sampleOutput\<lparr>output_spendingPath := Some samplePath\<rparr>] ''1000'' None
        [samplePoolCertificate] [sampleWithdrawal] None None
       = Inl OUTPUT_WITH_PATH"
    using bad_output sample_signing(1) sample_stages sample_failing_stages(2) by simp
  have r4: "validateTransaction sampleUtils sampleNetwork [sampleInput] [sampleOutput] '''' None
        [samplePoolCertificate] [sampleWithdrawal] None None
       = Inl FEE_INVALID"
    using bad_fee sample_signing(1) sample_stages sample_failing_stages(3) by simp
  have r5: "validateTransaction sampleUtils sampleNetwork [sampleInput] [sampleOutput] ''1000''
        (Some ''0'') [samplePoolCertificate] [sampleWithdrawal] None None
       = Inl TTL_INVALID"
    using bad_ttl sample_signing(1) sample_stages sample_failing_stages(4) by simp
  have r6: "validateTransaction sampleUtils sampleNetwork [sampleInput] [sampleOutput] ''1000'' None
        [samplePoolCertificate, sampleStakeCertificate] [sampleWithdrawal] None None
       = Inl CERTIFICATES_COMBINATION_FORBIDDEN"
    using bad_certificates sample_signing(2) sample_stages parse_sample_certificates(2) by simp
  from sample_signing(1) sample_stages sample_failing_stages parse_sample_certificates
       r1 r2 r3 r4 r5 r6
  show ?thesis by simp
qed

text \<open>
  A stake pool registration, a second certificate and a withdrawal: the certificates
  are checked before the withdrawals, and the transaction fails with the forbidden
  combination.
\<close>

theorem validateTransaction_combination_counterexample:
  "isSigningPoolRegistrationAsOwner [samplePoolCertificate, sampleStakeCertificate]
   \<and> [sampleWithdrawal] \<noteq> []
   \<and> validateTransaction sampleUtils sampleNetwork [sampleInput] [sampleOutput] ''1000'' None
        [samplePoolCertificate, sampleStakeCertificate] [sampleWithdrawal] None None
       = Inl CERTIFICATES_COMBINATION_FORBIDDEN
   \<and> CERTIFICATES_COMBINATION_FORBIDDEN \<noteq> WITHDRAWALS_FORBIDDEN"
  by (simp add: validateTransaction_def sample_signing sample_stages parse_sample_certificates)

subsection \<open>\<open>parseMargin\<close>\<close>

text \<open>
  C6. For decimal strings \<open>num\<close> and \<open>den\<close>: when \<open>num \<le> den \<le>\<close> the bound of the
  denominator, and that bound is an unsigned 64-bit number, \<open>parseMargin\<close> returns both
  strings unchanged. When \<open>num > den\<close> it fails: with \<open>CERTIFICATE_POOL_INVALID_MARGIN\<close>
  when the denominator is within its bound (or the numerator is no unsigned 64-bit
  number), and with \<open>CERTIFICATE_POOL_INVALID_MARGIN_DENOMINATOR\<close> when the numerator
  is an unsigned 64-bit number and the denominator is beyond its bound, because the
  denominator is checked before the two are compared.
\<close>

theorem parseMargin_bounds:
  assumes "isDecimal num" and "isDecimal den"
  shows "(decimalValue num \<le> decimalValue den
          \<and> decimalValue den \<le> decimalValue (POOL_MARGIN_DENOMINATOR_MAX_STR u)
          \<and> decimalValue (POOL_MARGIN_DENOMINATOR_MAX_STR u) \<le> 2 ^ 64 - 1
        \<longrightarrow> parseMargin u \<lparr>numeratorStr = num, denominatorStr = den\<rparr>
              = Inr \<lparr>numeratorStr = num, denominatorStr = den\<rparr>)
    \<and> (decimalValue den < decimalValue num
          \<and> decimalValue den \<le> decimalValue (POOL_MARGIN_DENOMINATOR_MAX_STR u)
        \<longrightarrow> parseMargin u \<lparr>numeratorStr = num, denominatorStr = den\<rparr>
              = Inl CERTIFICATE_POOL_INVALID_MARGIN)
    \<and> (decimalValue den < decimalValue num
          \<and> decimalValue (POOL_MARGIN_DENOMINATOR_MAX_STR u) < decimalValue den
        \<longrightarrow> parseMargin u \<lparr>numeratorStr = num, denominatorStr = den\<rparr>
              = Inl (if decimalValue num \<le> 2 ^ 64 - 1
                     then CERTIFICATE_POOL_INVALID_MARGIN_DENOMINATOR
                     else CERTIFICATE_POOL_INVALID_MARGIN))"
  using assms
  by (auto simp: parseMargin_def isUint64Str_def isValidPoolMarginDenominator_def
        isValidUintStr_def decimalValue_MAX_UINT_64_STR)

lemma sample_margin_bound:
  "decimalValue (POOL_MARGIN_DENOMINATOR_MAX_STR sampleUtils) = 1000000000000000000"
  by (simp add: sampleUtils_def decimalValue_def digitValue_def charCode_def)

lemma sample_margin_strings:
  "isDecimal ''3''" "isDecimal ''100''" "decimalValue ''3'' = 3" "decimalValue ''100'' = 100"
  "isDecimal ''2000000000000000000''" "isDecimal ''1500000000000000000''"
  "decimalValue ''2000000000000000000'' = 2000000000000000000"
  "decimalValue ''1500000000000000000'' = 1500000000000000000"
  by (simp_all add: isDecimal_def decimalValue_def char_defs)

theorem parseMargin_bounds_witness:
  "isDecimal ''3'' \<and> isDecimal ''100''
   \<and> decimalValue ''3'' \<le> decimalValue ''100''
   \<and> decimalValue ''100'' \<le> decimalValue (POOL_MARGIN_DENOMINATOR_MAX_STR sampleUtils)
   \<and> decimalValue (POOL_MARGIN_DENOMINATOR_MAX_STR sampleUtils) \<le> 2 ^ 64 - 1
   \<and> parseMargin sampleUtils \<lparr>numeratorStr = ''3'', denominatorStr = ''100''\<rparr>
       = Inr \<lparr>numeratorStr = ''3'', denominatorStr = ''100''\<rparr>
   \<and> decimalValue ''3'' < decimalValue ''100''
   \<and> parseMargin sampleUtils \<lparr>numeratorStr = ''100'', denominatorStr = ''3''\<rparr>
       = Inl CERTIFICATE_POOL_INVALID_MARGIN
   \<and> decimalValue ''1500000000000000000'' < decimalValue ''2000000000000000000''
   \<and> decimalValue (POOL_MARGIN_DENOMINATOR_MAX_STR sampleUtils) < decimalValue ''1500000000000000000''
   \<and> decimalValue ''2000000000000000000'' \<le> 2 ^ 64 - 1
   \<and> parseMargin sampleUtils
         \<lparr>numeratorStr = ''2000000000000000000'', denominatorStr = ''1500000000000000000''\<rparr>
       = Inl CERTIFICATE_POOL_INVALID_MARGIN_DENOMINATOR"
  using parseMargin_bounds [OF sample_margin_strings(1) sample_margin_strings(2), of sampleUtils]
        parseMargin_bounds [OF sample_margin_strings(2) sample_margin_strings(1), of sampleUtils]
        parseMargin_bounds [OF sample_margin_strings(5) sample_margin_strings(6), of sampleUtils]
  by (simp add: sample_margin_bound sample_margin_strings)

text \<open>
  With the bound 1 000 000 000 000 000 000 of the sample parameters: the numerator
  exceeds the denominator and both are unsigned 64-bit numbers, and the failure is that
  of the denominator.
\<close>

theorem parseMargin_denominator_counterexample:
  "isDecimal ''2000000000000000000'' \<and> isDecimal ''1500000000000000000''
   \<and> decimalValue ''1500000000000000000'' < decimalValue ''2000000000000000000''
   \<and> parseMargin sampleUtils
         \<lparr>numeratorStr = ''2000000000000000000'', denominatorStr = ''1500000000000000000''\<rparr>
       = Inl CERTIFICATE_POOL_INVALID_MARGIN_DENOMINATOR
   \<and> CERTIFICATE_POOL_INVALID_MARGIN_DENOMINATOR \<noteq> CERTIFICATE_POOL_INVALID_MARGIN"
  by (simp add: parseMargin_def isUint64Str_def isValidPoolMarginDenominator_def
        isValidUintStr_def decimalValue_MAX_UINT_64_STR sample_margin_bound sample_margin_strings)

subsection \<open>\<open>parseIPv6\<close>\<close>

lemma split_not_Nil: "split separator str \<noteq> []"
  by (induction str) (auto split: list.splits)

lemma join_split: "join_empty (split separator str) = filter (\<lambda>c. c \<noteq> separator) str"
proof (induction str)
  case Nil
  show ?case by (simp add: join_empty_def)
next
  case (Cons c cs)
  then show ?case
    using split_not_Nil [of separator cs]
    by (cases "split separator cs") (auto simp: join_empty_def)
qed

text \<open>
  C7. \<open>parseIPv6\<close> accepts a string exactly when, after every colon is deleted, 32
  characters remain and all of them are hexadecimal digits; it rejects every other
  string with the error it was given, so a compressed form that leaves fewer than 32
  digits is rejected.
\<close>

theorem parseIPv6_accepts:
  "((\<exists>buf. parseIPv6 ipv6 err = Inr buf) \<longleftrightarrow>
      length (filter (\<lambda>c. c \<noteq> CHR '':'') ipv6) = 32
      \<and> list_all isHexDigit (filter (\<lambda>c. c \<noteq> CHR '':'') ipv6))
   \<and> ((\<nexists>buf. parseIPv6 ipv6 err = Inr buf) \<longrightarrow> parseIPv6 ipv6 err = Inl err)
   \<and> (length (filter (\<lambda>c. c \<noteq> CHR '':'') ipv6) < 32 \<longrightarrow> parseIPv6 ipv6 err = Inl err)"
  by (auto simp: parseIPv6_def join_split isHexStringOfLength_def isHexString_def Let_def)

theorem parseIPv6_accepts_witness:
  "length (filter (\<lambda>c. c \<noteq> CHR '':'') ''::1'') < 32
   \<and> parseIPv6 ''::1'' CERTIFICATE_POOL_RELAY_INVALID_IPV6 = Inl CERTIFICATE_POOL_RELAY_INVALID_IPV6
   \<and> length (filter (\<lambda>c. c \<noteq> CHR '':'') ''2001:0db8:85a3:0000:0000:8a2e:0370:7334'') = 32
   \<and> list_all isHexDigit (filter (\<lambda>c. c \<noteq> CHR '':'') ''2001:0db8:85a3:0000:0000:8a2e:0370:7334'')
   \<and> (\<exists>buf. parseIPv6 ''2001:0db8:85a3:0000:0000:8a2e:0370:7334''
               CERTIFICATE_POOL_RELAY_INVALID_IPV6 = Inr buf)"
proof -
  have short: "length (filter (\<lambda>c. c \<noteq> CHR '':'') ''::1'') < 32"
    by simp
  have full: "filter (\<lambda>c. c \<noteq> CHR '':'') ''2001:0db8:85a3:0000:0000:8a2e:0370:7334''
                = ''20010db885a3000000008a2e03707334''"
    by simp
  have hex: "list_all isHexDigit ''20010db885a3000000008a2e03707334''"
    by (simp add: isHexDigit_def isDigit_def charCode_def)
  have len: "length ''20010db885a3000000008a2e03707334'' = 32"
    by simp
  from short parseIPv6_accepts [of "''::1''" CERTIFICATE_POOL_RELAY_INVALID_IPV6]
  have rejected: "parseIPv6 ''::1'' CERTIFICATE_POOL_RELAY_INVALID_IPV6
                    = Inl CERTIFICATE_POOL_RELAY_INVALID_IPV6"
    by blast
  from hex len parseIPv6_accepts [of "''2001:0db8:85a3:0000:0000:8a2e:0370:7334''"
                              CERTIFICATE_POOL_RELAY_INVALID_IPV6]
  have accepted: "\<exists>buf. parseIPv6 ''2001:0db8:85a3:0000:0000:8a2e:0370:7334''
               CERTIFICATE_POOL_RELAY_INVALID_IPV6 = Inr buf"
    unfolding full by blast
  from short rejected hex len accepted show ?thesis
    unfolding full by blast
qed


section \<open>Verification: the driver and the send function\<close>

lemma wrapRetryStillInCall_Inr:
  "fn args s = (Inr r, s1) \<Longrightarrow> wrapRetryStillInCall E fn args s = (Inr r, s1)"
  by (simp add: wrapRetryStillInCall_def)

lemma wrapRetryStillInCall_retry:
  "fn args s = (Inl e, s1) \<Longrightarrow> statusCode e = Some E \<Longrightarrow> E \<noteq> 0 \<Longrightarrow>
     wrapRetryStillInCall E fn args s = fn args s1"
  by (simp add: wrapRetryStillInCall_def)

lemma wrapRetryStillInCall_other:
  "fn args s = (Inl e, s1) \<Longrightarrow> statusCode e \<noteq> Some E \<Longrightarrow>
     wrapRetryStillInCall E fn args s = (Inl e, s1)"
  by (auto simp: wrapRetryStillInCall_def split: option.splits)

lemma statusCode_converted:
  "statusCode (case statusCode e of Some c \<Rightarrow> DeviceStatusError c | None \<Rightarrow> e) = statusCode e"
  by (cases "statusCode e") simp_all

lemma Ada_send_transport_throws:
  "transport (CLA, ins apdu, p1 apdu, p2 apdu, data apdu) s = (Inl e, s1) \<Longrightarrow>
     Ada_send transport apdu s =
       (Inl (case statusCode e of Some c \<Rightarrow> DeviceStatusError c | None \<Rightarrow> e), s1)"
  by (simp add: Ada_send_def wrapConvertDeviceStatusError_def split: option.splits)

lemma Ada_send_one_call:
  "snd (Ada_send transport apdu s) = snd (transport (CLA, ins apdu, p1 apdu, p2 apdu, data apdu) s)"
  by (simp add: Ada_send_def wrapConvertDeviceStatusError_def
        split: prod.splits sum.splits option.splits)

lemma Ada_send_transport_answers:
  "transport (CLA, ins apdu, p1 apdu, p2 apdu, data apdu) s = (Inr response, s1) \<Longrightarrow>
     Ada_send transport apdu s = (fst (Ada_send transport apdu s), s1)
     \<and> (\<forall>e. fst (Ada_send transport apdu s) = Inl e \<longrightarrow> statusCode e = None)"
  by (simp add: Ada_send_def wrapConvertDeviceStatusError_def stripRetcodeFromResponse_def
        split: option.splits)

text \<open>
  C2. \<open>interact\<close> is run on \<open>this._send\<close>, here \<open>Ada_send transport\<close>, which calls the
  transport once for every request and throws the status that the transport reports
  as a \<open>DeviceStatusError\<close> with the same status code (any other error of the transport
  unchanged). On the first exchange of an interaction: when the transport reports the
  status \<open>ERR_STILL_IN_CALL\<close>, the same request is sent a second time, once, and whatever
  the second call returns or throws is the outcome of the exchange (a second failure
  of the transport, also with the same status, is thrown to the caller, after two
  calls of the transport); any other failure of the transport is thrown after that
  one call; and when the transport answers, nothing is sent again, also when \<open>_send\<close>
  rejects the answer. On every later exchange any failure of the transport,
  \<open>ERR_STILL_IN_CALL\<close> too, is thrown after that one call. The states count the calls
  of the transport: \<open>s1\<close> is the state after one call, \<open>s2\<close> after two.
\<close>

theorem interact_retries_first_exchange_once:
  "(transport (CLA, ins apdu, p1 apdu, p2 apdu, data apdu) s = (Inl e, s1)
      \<and> statusCode e = Some E \<and> E \<noteq> 0 \<longrightarrow>
      interact E (Yield apdu k) (Ada_send transport) s =
        (case Ada_send transport apdu s1 of
           (Inl e2, s2) \<Rightarrow> (Inl e2, s2)
         | (Inr res, s2) \<Rightarrow> interact_loop E (k res) False (Ada_send transport) s2))
   \<and> (transport (CLA, ins apdu, p1 apdu, p2 apdu, data apdu) s = (Inl e, s1)
      \<and> statusCode e = Some E \<and> E \<noteq> 0
      \<and> transport (CLA, ins apdu, p1 apdu, p2 apdu, data apdu) s1 = (Inl e2, s2) \<longrightarrow>
      interact E (Yield apdu k) (Ada_send transport) s =
        (Inl (case statusCode e2 of Some c \<Rightarrow> DeviceStatusError c | None \<Rightarrow> e2), s2))
   \<and> (transport (CLA, ins apdu, p1 apdu, p2 apdu, data apdu) s = (Inl e, s1)
      \<and> statusCode e \<noteq> Some E \<longrightarrow>
      interact E (Yield apdu k) (Ada_send transport) s =
        (Inl (case statusCode e of Some c \<Rightarrow> DeviceStatusError c | None \<Rightarrow> e), s1))
   \<and> (transport (CLA, ins apdu, p1 apdu, p2 apdu, data apdu) s = (Inr response, s1) \<longrightarrow>
      interact E (Yield apdu k) (Ada_send transport) s =
        (case fst (Ada_send transport apdu s) of
           Inl e2 \<Rightarrow> (Inl e2, s1)
         | Inr res \<Rightarrow> interact_loop E (k res) False (Ada_send transport) s1))
   \<and> (transport (CLA, ins apdu, p1 apdu, p2 apdu, data apdu) s = (Inl e, s1) \<longrightarrow>
      interact_loop E (Yield apdu k) False (Ada_send transport) s =
        (Inl (case statusCode e of Some c \<Rightarrow> DeviceStatusError c | None \<Rightarrow> e), s1))
   \<and> (Ada_send transport apdu s = (Inr res, s1) \<longrightarrow>
      interact_loop E (Yield apdu k) False (Ada_send transport) s =
        interact_loop E (k res) False (Ada_send transport) s1)
   \<and> snd (Ada_send transport apdu s)
       = snd (transport (CLA, ins apdu, p1 apdu, p2 apdu, data apdu) s)"
proof (intro conjI impI)
  assume a: "transport (CLA, ins apdu, p1 apdu, p2 apdu, data apdu) s = (Inl e, s1)
      \<and> statusCode e = Some E \<and> E \<noteq> 0"
  then have "Ada_send transport apdu s = (Inl (DeviceStatusError E), s1)"
    using Ada_send_transport_throws [of transport apdu s e s1] by simp
  then have "wrapRetryStillInCall E (Ada_send transport) apdu s = Ada_send transport apdu s1"
    using a by (simp add: wrapRetryStillInCall_retry)
  then show "interact E (Yield apdu k) (Ada_send transport) s =
        (case Ada_send transport apdu s1 of
           (Inl e2, s2) \<Rightarrow> (Inl e2, s2)
         | (Inr res, s2) \<Rightarrow> interact_loop E (k res) False (Ada_send transport) s2)"
    by (simp add: interact_def)
next
  assume a: "transport (CLA, ins apdu, p1 apdu, p2 apdu, data apdu) s = (Inl e, s1)
      \<and> statusCode e = Some E \<and> E \<noteq> 0
      \<and> transport (CLA, ins apdu, p1 apdu, p2 apdu, data apdu) s1 = (Inl e2, s2)"
  then have "Ada_send transport apdu s = (Inl (DeviceStatusError E), s1)"
    using Ada_send_transport_throws [of transport apdu s e s1] by simp
  then have "wrapRetryStillInCall E (Ada_send transport) apdu s = Ada_send transport apdu s1"
    using a by (simp add: wrapRetryStillInCall_retry)
  moreover have "Ada_send transport apdu s1 =
      (Inl (case statusCode e2 of Some c \<Rightarrow> DeviceStatusError c | None \<Rightarrow> e2), s2)"
    using a Ada_send_transport_throws [of transport apdu s1 e2 s2] by simp
  ultimately show "interact E (Yield apdu k) (Ada_send transport) s =
        (Inl (case statusCode e2 of Some c \<Rightarrow> DeviceStatusError c | None \<Rightarrow> e2), s2)"
    by (simp add: interact_def)
next
  assume a: "transport (CLA, ins apdu, p1 apdu, p2 apdu, data apdu) s = (Inl e, s1)
      \<and> statusCode e \<noteq> Some E"
  let ?e = "case statusCode e of Some c \<Rightarrow> DeviceStatusError c | None \<Rightarrow> e"
  from a have sent: "Ada_send transport apdu s = (Inl ?e, s1)"
    using Ada_send_transport_throws [of transport apdu s e s1] by simp
  from a have "statusCode ?e \<noteq> Some E"
    by (simp only: statusCode_converted) simp
  with sent have "wrapRetryStillInCall E (Ada_send transport) apdu s = (Inl ?e, s1)"
    by (rule wrapRetryStillInCall_other)
  then show "interact E (Yield apdu k) (Ada_send transport) s = (Inl ?e, s1)"
    by (simp add: interact_def)
next
  assume a: "transport (CLA, ins apdu, p1 apdu, p2 apdu, data apdu) s = (Inr response, s1)"
  have answered: "Ada_send transport apdu s = (fst (Ada_send transport apdu s), s1)
     \<and> (\<forall>e. fst (Ada_send transport apdu s) = Inl e \<longrightarrow> statusCode e = None)"
    using a by (rule Ada_send_transport_answers [of transport apdu s response s1])
  show "interact E (Yield apdu k) (Ada_send transport) s =
        (case fst (Ada_send transport apdu s) of
           Inl e2 \<Rightarrow> (Inl e2, s1)
         | Inr res \<Rightarrow> interact_loop E (k res) False (Ada_send transport) s1)"
  proof (cases "fst (Ada_send transport apdu s)")
    case (Inl e2)
    with answered have sent: "Ada_send transport apdu s = (Inl e2, s1)"
      and "statusCode e2 \<noteq> Some E"
      by simp_all
    then have "wrapRetryStillInCall E (Ada_send transport) apdu s = (Inl e2, s1)"
      by (rule wrapRetryStillInCall_other)
    with Inl show ?thesis by (simp add: interact_def)
  next
    case (Inr res)
    with answered have "Ada_send transport apdu s = (Inr res, s1)" by simp
    then have "wrapRetryStillInCall E (Ada_send transport) apdu s = (Inr res, s1)"
      by (rule wrapRetryStillInCall_Inr)
    with Inr show ?thesis by (simp add: interact_def)
  qed
next
  assume "transport (CLA, ins apdu, p1 apdu, p2 apdu, data apdu) s = (Inl e, s1)"
  then show "interact_loop E (Yield apdu k) False (Ada_send transport) s =
        (Inl (case statusCode e of Some c \<Rightarrow> DeviceStatusError c | None \<Rightarrow> e), s1)"
    using Ada_send_transport_throws [of transport apdu s e s1] by simp
next
  assume "Ada_send transport apdu s = (Inr res, s1)"
  then show "interact_loop E (Yield apdu k) False (Ada_send transport) s =
        interact_loop E (k res) False (Ada_send transport) s1"
    by simp
next
  show "snd (Ada_send transport apdu s)
       = snd (transport (CLA, ins apdu, p1 apdu, p2 apdu, data apdu) s)"
    by (rule Ada_send_one_call)
qed

lemma sample_status:
  "statusCode (TransportStatusError sample_ERR_STILL_IN_CALL) = Some sample_ERR_STILL_IN_CALL"
  "statusCode (TransportError ''unplugged'') \<noteq> Some sample_ERR_STILL_IN_CALL"
  "sample_ERR_STILL_IN_CALL \<noteq> 0"
  by (simp_all add: sample_ERR_STILL_IN_CALL_def)

lemma sample_frames:
  "busyTransport 0 (CLA, 0x10, 0x00, 0x00, [1]) 0
     = (Inl (TransportStatusError sample_ERR_STILL_IN_CALL), 1)"
  "busyTransport 0 (CLA, 0x10, 0x00, 0x00, [1]) 1 = (Inr [1, 0x90, 0x00], 2)"
  "busyTransport 1 (CLA, 0x10, 0x00, 0x00, [1]) 0 = (Inr [1, 0x90, 0x00], 1)"
  "busyTransport 1 (CLA, 0x10, 0x00, 0x00, [2]) 1
     = (Inl (TransportStatusError sample_ERR_STILL_IN_CALL), 2)"
  "alwaysBusyTransport (CLA, 0x10, 0x00, 0x00, [1]) 0
     = (Inl (TransportStatusError sample_ERR_STILL_IN_CALL), 1)"
  "alwaysBusyTransport (CLA, 0x10, 0x00, 0x00, [1]) 1
     = (Inl (TransportStatusError sample_ERR_STILL_IN_CALL), 2)"
  "unpluggedTransport (CLA, 0x10, 0x00, 0x00, [1]) 0 = (Inl (TransportError ''unplugged''), 1)"
  by (simp_all add: busyTransport_def alwaysBusyTransport_def unpluggedTransport_def)

lemma sample_request:
  "ins (sampleRequest payload) = 0x10" "p1 (sampleRequest payload) = 0x00"
  "p2 (sampleRequest payload) = 0x00" "data (sampleRequest payload) = payload"
  "expectedResponseLength (sampleRequest payload) = None"
  by (simp_all add: sampleRequest_def)

lemma sample_sends:
  "Ada_send (busyTransport 0) (sampleRequest [1]) 1 = (Inr [1], 2)"
  "Ada_send (busyTransport 1) (sampleRequest [1]) 0 = (Inr [1], 1)"
  by (simp_all add: Ada_send_def wrapConvertDeviceStatusError_def stripRetcodeFromResponse_def
        sample_request busyTransport_def)

theorem interact_retries_first_exchange_once_witness:
  "busyTransport 0 (CLA, 0x10, 0x00, 0x00, [1]) 0
     = (Inl (TransportStatusError sample_ERR_STILL_IN_CALL), 1)
   \<and> statusCode (TransportStatusError sample_ERR_STILL_IN_CALL) = Some sample_ERR_STILL_IN_CALL
   \<and> sample_ERR_STILL_IN_CALL \<noteq> 0
   \<and> interact sample_ERR_STILL_IN_CALL (sampleOperation [6] [1])
       (Ada_send (busyTransport 0)) 0
       = (Inr ([6], [1]), 2)
   \<and> alwaysBusyTransport (CLA, 0x10, 0x00, 0x00, [1]) 0
       = (Inl (TransportStatusError sample_ERR_STILL_IN_CALL), 1)
   \<and> alwaysBusyTransport (CLA, 0x10, 0x00, 0x00, [1]) 1
       = (Inl (TransportStatusError sample_ERR_STILL_IN_CALL), 2)
   \<and> interact sample_ERR_STILL_IN_CALL (sampleOperation [6] [1])
       (Ada_send alwaysBusyTransport) 0
       = (Inl (DeviceStatusError sample_ERR_STILL_IN_CALL), 2)
   \<and> unpluggedTransport (CLA, 0x10, 0x00, 0x00, [1]) 0 = (Inl (TransportError ''unplugged''), 1)
   \<and> statusCode (TransportError ''unplugged'') \<noteq> Some sample_ERR_STILL_IN_CALL
   \<and> interact sample_ERR_STILL_IN_CALL (sampleOperation [6] [1])
       (Ada_send unpluggedTransport) 0
       = (Inl (TransportError ''unplugged''), 1)
   \<and> busyTransport 1 (CLA, 0x10, 0x00, 0x00, [1]) 0 = (Inr [1, 0x90, 0x00], 1)
   \<and> busyTransport 1 (CLA, 0x10, 0x00, 0x00, [2]) 1
       = (Inl (TransportStatusError sample_ERR_STILL_IN_CALL), 2)
   \<and> interact sample_ERR_STILL_IN_CALL
       (Yield (sampleRequest [1]) (\<lambda>response. sampleOperation response [2]))
       (Ada_send (busyTransport 1)) 0
       = (Inl (DeviceStatusError sample_ERR_STILL_IN_CALL), 2)"
proof -
  note retried = interact_retries_first_exchange_once
    [where transport = "busyTransport 0" and apdu = "sampleRequest [1]" and s = 0
       and e = "TransportStatusError sample_ERR_STILL_IN_CALL" and ?s1.0 = 1
       and E = sample_ERR_STILL_IN_CALL and k = "\<lambda>response. Return ([6::byte], response)",
     THEN conjunct1]
  have r1: "interact sample_ERR_STILL_IN_CALL (sampleOperation [6] [1])
       (Ada_send (busyTransport 0)) 0 = (Inr ([6], [1]), 2)"
    using retried sample_frames sample_status sample_sends
    by (simp add: sample_request sampleOperation_def)
  note failed_twice = interact_retries_first_exchange_once
    [where transport = alwaysBusyTransport and apdu = "sampleRequest [1]" and s = 0
       and e = "TransportStatusError sample_ERR_STILL_IN_CALL" and ?s1.0 = 1
       and ?e2.0 = "TransportStatusError sample_ERR_STILL_IN_CALL" and ?s2.0 = 2
       and E = sample_ERR_STILL_IN_CALL and k = "\<lambda>response. Return ([6::byte], response)",
     THEN conjunct2, THEN conjunct1]
  have r2: "interact sample_ERR_STILL_IN_CALL (sampleOperation [6] [1])
       (Ada_send alwaysBusyTransport) 0
       = (Inl (DeviceStatusError sample_ERR_STILL_IN_CALL), 2)"
    using failed_twice sample_frames sample_status
    by (simp add: sample_request sampleOperation_def)
  note other = interact_retries_first_exchange_once
    [where transport = unpluggedTransport and apdu = "sampleRequest [1]" and s = 0
       and e = "TransportError ''unplugged''" and ?s1.0 = 1
       and E = sample_ERR_STILL_IN_CALL and k = "\<lambda>response. Return ([6::byte], response)",
     THEN conjunct2, THEN conjunct2, THEN conjunct1]
  have r3: "interact sample_ERR_STILL_IN_CALL (sampleOperation [6] [1])
       (Ada_send unpluggedTransport) 0 = (Inl (TransportError ''unplugged''), 1)"
    using other sample_frames sample_status
    by (simp add: sample_request sampleOperation_def)
  note answered = interact_retries_first_exchange_once
    [where transport = "busyTransport 1" and apdu = "sampleRequest [1]" and s = 0
       and response = "[1, 0x90, 0x00]" and ?s1.0 = 1
       and E = sample_ERR_STILL_IN_CALL and k = "\<lambda>response. sampleOperation response [2]",
     THEN conjunct2, THEN conjunct2, THEN conjunct2, THEN conjunct1]
  note later = interact_retries_first_exchange_once
    [where transport = "busyTransport 1" and apdu = "sampleRequest [2]" and s = 1
       and e = "TransportStatusError sample_ERR_STILL_IN_CALL" and ?s1.0 = 2
       and E = sample_ERR_STILL_IN_CALL and k = "\<lambda>response. Return ([1::byte], response)",
     THEN conjunct2, THEN conjunct2, THEN conjunct2, THEN conjunct2, THEN conjunct1]
  have r4: "interact_loop sample_ERR_STILL_IN_CALL (sampleOperation [1] [2]) False
       (Ada_send (busyTransport 1)) 1
       = (Inl (DeviceStatusError sample_ERR_STILL_IN_CALL), 2)"
    using later sample_frames sample_status
    by (simp add: sample_request sampleOperation_def)
  have r5: "interact sample_ERR_STILL_IN_CALL
       (Yield (sampleRequest [1]) (\<lambda>response. sampleOperation response [2]))
       (Ada_send (busyTransport 1)) 0
       = (Inl (DeviceStatusError sample_ERR_STILL_IN_CALL), 2)"
    using answered sample_frames sample_sends r4
    by (simp add: sample_request sampleOperation_def)
  from r1 r2 r3 r5 sample_frames sample_status show ?thesis by simp
qed


subsection \<open>\<open>_send\<close>\<close>

lemma statusCode_AssertionError: "statusCode AssertionError \<noteq> Some E"
  by simp

lemma stripRetcodeFromResponse_Inr:
  "stripRetcodeFromResponse response = Inr payload \<Longrightarrow>
     2 \<le> length response \<and> payload = take (length response - 2) response"
  by (auto simp: stripRetcodeFromResponse_def split: if_splits)

lemma Ada_send_expected:
  assumes "transport (CLA, ins params, p1 params, p2 params, data params) s = (Inr response, s1)"
    and "stripRetcodeFromResponse response = Inr payload"
    and "expectedResponseLength params = Some n"
  shows "Ada_send transport params s =
           (if length payload = n then (Inr payload, s1) else (Inl AssertionError, s1))"
  using assms by (simp add: Ada_send_def wrapConvertDeviceStatusError_def)

text \<open>
  C9. When the transport answers and the request declares an
  \<open>expectedResponseLength\<close>, \<open>_send\<close> first removes the status code from the end of
  the response and then compares the length of what remains with the declared length:
  it returns the payload when they agree and throws an assertion error when they
  differ. That error carries no status code: on the first exchange
  \<open>wrapRetryStillInCall\<close> does not send again, on a later exchange nothing would, and
  \<open>interact\<close> throws it after that one call of the transport (\<open>s1\<close> is the state after
  one call).
\<close>

theorem Ada_send_asserts_stripped_length:
  assumes "transport (CLA, ins params, p1 params, p2 params, data params) s = (Inr response, s1)"
    and "stripRetcodeFromResponse response = Inr payload"
    and "expectedResponseLength params = Some n"
  shows "payload = take (length response - 2) response
    \<and> Ada_send transport params s =
         (if length payload = n then (Inr payload, s1) else (Inl AssertionError, s1))
    \<and> (length payload \<noteq> n \<longrightarrow>
          wrapRetryStillInCall E (Ada_send transport) params s = (Inl AssertionError, s1)
        \<and> interact E (Yield params k) (Ada_send transport) s = (Inl AssertionError, s1)
        \<and> interact_loop E (Yield params k) False (Ada_send transport) s = (Inl AssertionError, s1))"
proof -
  note sent = Ada_send_expected [of transport params s response s1 payload n, OF assms]
  have retry: "wrapRetryStillInCall E (Ada_send transport) params s = (Inl AssertionError, s1)"
    if "length payload \<noteq> n"
    using that sent by (simp add: wrapRetryStillInCall_other)
  have first: "interact E (Yield params k) (Ada_send transport) s = (Inl AssertionError, s1)"
    if "length payload \<noteq> n"
    using retry [OF that] by (simp add: interact_def)
  have later: "interact_loop E (Yield params k) False (Ada_send transport) s = (Inl AssertionError, s1)"
    if "length payload \<noteq> n"
    using that sent by simp
  from stripRetcodeFromResponse_Inr [OF assms(2)] sent retry first later
  show ?thesis by blast
qed

lemma sampleTransport_version:
  "sampleTransport (CLA, ins sampleVersionRequest, p1 sampleVersionRequest,
      p2 sampleVersionRequest, data sampleVersionRequest) 0
    = (Inr [6, 1, 2, 0, 0x90, 0x00], 1)"
  "sampleTransport (CLA, ins sampleLongRequest, p1 sampleLongRequest,
      p2 sampleLongRequest, data sampleLongRequest) 0
    = (Inr [6, 1, 2, 0, 0x90, 0x00], 1)"
  by (simp_all add: sampleTransport_def sampleVersionRequest_def sampleLongRequest_def)

lemma sample_expected:
  "expectedResponseLength sampleVersionRequest = Some 4"
  "expectedResponseLength sampleLongRequest = Some 6"
  by (simp_all add: sampleVersionRequest_def sampleLongRequest_def)

lemma strip_sample: "stripRetcodeFromResponse [6, 1, 2, 0, 0x90, 0x00] = Inr [6, 1, 2, 0]"
  by (simp add: stripRetcodeFromResponse_def)

theorem Ada_send_asserts_stripped_length_witness:
  "sampleTransport (CLA, ins sampleLongRequest, p1 sampleLongRequest,
      p2 sampleLongRequest, data sampleLongRequest) 0
    = (Inr [6, 1, 2, 0, 0x90, 0x00], 1)
   \<and> stripRetcodeFromResponse [6, 1, 2, 0, 0x90, 0x00] = Inr [6, 1, 2, 0]
   \<and> expectedResponseLength sampleLongRequest = Some 6
   \<and> length [6 :: byte, 1, 2, 0] \<noteq> 6
   \<and> Ada_send sampleTransport sampleLongRequest 0 = (Inl AssertionError, 1)
   \<and> interact sample_ERR_STILL_IN_CALL (Yield sampleLongRequest Return)
        (Ada_send sampleTransport) 0
       = (Inl AssertionError, 1)
   \<and> Ada_send sampleTransport sampleVersionRequest 0 = (Inr [6, 1, 2, 0], 1)"
proof -
  note long = Ada_send_asserts_stripped_length
         [of sampleTransport sampleLongRequest 0 "[6, 1, 2, 0, 0x90, 0x00]" 1 "[6, 1, 2, 0]" 6
             sample_ERR_STILL_IN_CALL Return,
          OF sampleTransport_version(2) strip_sample sample_expected(2)]
  note good = Ada_send_asserts_stripped_length
         [of sampleTransport sampleVersionRequest 0 "[6, 1, 2, 0, 0x90, 0x00]" 1 "[6, 1, 2, 0]" 4
             sample_ERR_STILL_IN_CALL Return,
          OF sampleTransport_version(1) strip_sample sample_expected(1)]
  have ne: "length [6 :: byte, 1, 2, 0] \<noteq> 6" by simp
  have r1: "Ada_send sampleTransport sampleLongRequest 0 = (Inl AssertionError, 1)"
    using long [THEN conjunct2, THEN conjunct1] by simp
  have r2: "interact sample_ERR_STILL_IN_CALL (Yield sampleLongRequest Return)
        (Ada_send sampleTransport) 0 = (Inl AssertionError, 1)"
    using long [THEN conjunct2, THEN conjunct2, THEN mp, OF ne] by (rule conjunct2 [THEN conjunct1])
  have r3: "Ada_send sampleTransport sampleVersionRequest 0 = (Inr [6, 1, 2, 0], 1)"
    using good [THEN conjunct2, THEN conjunct1] by simp
  from sampleTransport_version(2) strip_sample sample_expected(2) ne r1 r2 r3
  show ?thesis by (intro conjI)
qed


subsection \<open>The operations\<close>

lemma yield_star_getVersion:
  "yield_star (getVersion request decode) rest
     = Yield request (\<lambda>response. yield_star (decode response) rest)"
  by (simp add: getVersion_def)

lemma interact_Yield:
  "interact E (Yield request k) send s =
     (case wrapRetryStillInCall E send request s of
        (Inl e, s1) \<Rightarrow> (Inl e, s1)
      | (Inr response, s1) \<Rightarrow> interact_loop E (k response) False send s1)"
  by (simp add: interact_def)

text \<open>
  What the recording transport has seen after a call of \<open>_send\<close>, after the first
  exchange of \<open>interact\<close> and after the whole loop: the frames it had seen before, then
  the frame of the request, then the frames of the exchanges that follow.
\<close>

lemma Ada_send_log:
  "snd (snd (Ada_send (recording transport) apdu st))
     = snd st @ [(CLA, ins apdu, p1 apdu, p2 apdu, data apdu)]"
  by (simp add: Ada_send_def wrapConvertDeviceStatusError_def recording_def
        split: prod.splits sum.splits option.splits)

lemma wrapRetryStillInCall_log:
  "\<exists>rest. snd (snd (wrapRetryStillInCall E (Ada_send (recording transport)) apdu st))
     = snd st @ (CLA, ins apdu, p1 apdu, p2 apdu, data apdu) # rest"
proof -
  obtain r st1 where Pair: "Ada_send (recording transport) apdu st = (r, st1)"
    by (cases "Ada_send (recording transport) apdu st")
  then have log1: "snd st1 = snd st @ [(CLA, ins apdu, p1 apdu, p2 apdu, data apdu)]"
    using Ada_send_log [of transport apdu st] by simp
  show ?thesis
  proof (cases "wrapRetryStillInCall E (Ada_send (recording transport)) apdu st
      = Ada_send (recording transport) apdu st")
    case True
    with Pair log1 show ?thesis by simp
  next
    case False
    with Pair have "wrapRetryStillInCall E (Ada_send (recording transport)) apdu st
      = Ada_send (recording transport) apdu st1"
      by (auto simp: wrapRetryStillInCall_def split: sum.splits option.splits if_splits)
    then show ?thesis
      using Ada_send_log [of transport apdu st1] log1 by simp
  qed
qed

lemma interact_loop_log:
  "\<exists>rest. snd (snd (interact_loop E i first (Ada_send (recording transport)) st))
     = snd st @ rest"
proof (induction i arbitrary: first st)
  case (Return v)
  show ?case by simp
next
  case (Throw e)
  show ?case by simp
next
  case (Yield apdu k)
  define exchange where "exchange =
    (if first then wrapRetryStillInCall E (Ada_send (recording transport)) apdu st
     else Ada_send (recording transport) apdu st)"
  obtain r st1 where ex: "exchange = (r, st1)" by (cases exchange)
  have "\<exists>rest. snd (snd exchange) = snd st @ rest"
    using wrapRetryStillInCall_log [of E transport apdu st] Ada_send_log [of transport apdu st]
    by (auto simp: exchange_def)
  then obtain rest1 where log1: "snd st1 = snd st @ rest1"
    using ex by auto
  show ?case
  proof (cases r)
    case (Inl e)
    with ex log1 show ?thesis by (simp add: exchange_def)
  next
    case (Inr res)
    from Yield.IH [of "k res" False st1] obtain rest2 where
      "snd (snd (interact_loop E (k res) False (Ada_send (recording transport)) st1))
         = snd st1 @ rest2"
      by auto
    with Inr ex log1 show ?thesis by (simp add: exchange_def)
  qed
qed

lemma interact_first_frame:
  "\<exists>rest. snd (snd (interact E (Yield apdu k) (Ada_send (recording transport)) st))
     = snd st @ (CLA, ins apdu, p1 apdu, p2 apdu, data apdu) # rest"
proof -
  obtain r st1 where
    ex: "wrapRetryStillInCall E (Ada_send (recording transport)) apdu st = (r, st1)"
    by (cases "wrapRetryStillInCall E (Ada_send (recording transport)) apdu st")
  with wrapRetryStillInCall_log [of E transport apdu st] obtain rest1 where
    log1: "snd st1 = snd st @ (CLA, ins apdu, p1 apdu, p2 apdu, data apdu) # rest1"
    by auto
  show ?thesis
  proof (cases r)
    case (Inl e)
    with ex log1 show ?thesis by (simp add: interact_Yield)
  next
    case (Inr res)
    from interact_loop_log [of E "k res" False transport st1] obtain rest2 where
      "snd (snd (interact_loop E (k res) False (Ada_send (recording transport)) st1))
         = snd st1 @ rest2"
      by auto
    with Inr ex log1 show ?thesis by (simp add: interact_Yield)
  qed
qed

lemma getVersion_first_frame:
  "\<exists>rest. snd (snd (interact E
       (yield_star (getVersion (getVersionRequest INS_GET_VERSION) decodeVersion) operation)
       (Ada_send (recording transport)) (s, log)))
     = log @ (CLA, INS_GET_VERSION, 0x00, 0x00, []) # rest"
  using interact_first_frame [of E "getVersionRequest INS_GET_VERSION"
      "\<lambda>response. yield_star (decodeVersion response) operation" transport "(s, log)"]
  by (simp add: yield_star_getVersion getVersionRequest_def)

lemma getVersion_fresh:
  assumes "transport (CLA, INS_GET_VERSION, 0x00, 0x00, []) s = (Inr response, s1)"
    and "stripRetcodeFromResponse response = Inr payload"
    and "length payload = 4"
  shows "interact E
       (yield_star (getVersion (getVersionRequest INS_GET_VERSION) decodeVersion) operation)
       (Ada_send transport) s
     = interact_loop E (yield_star (decodeVersion payload) operation) False
         (Ada_send transport) s1"
proof -
  from assms have "Ada_send transport (getVersionRequest INS_GET_VERSION) s = (Inr payload, s1)"
    by (simp add: Ada_send_def wrapConvertDeviceStatusError_def getVersionRequest_def)
  then have "wrapRetryStillInCall E (Ada_send transport) (getVersionRequest INS_GET_VERSION) s
      = (Inr payload, s1)"
    by (rule wrapRetryStillInCall_Inr)
  then show ?thesis
    by (simp add: yield_star_getVersion interact_Yield)
qed

text \<open>
  C8. Each of the eight operations, once its request has been parsed, begins with the
  get-version request: whatever frames the transport has seen before the call (\<open>log\<close>),
  the first frame that it sees in the call is the get-version frame, with the class
  byte \<open>CLA\<close>; the frames of the operation itself come after it (\<open>rest\<close>). And the version
  that the operation is run with is the one decoded from the response that the
  transport gives to that frame in this call: when the transport answers it with a
  status and four bytes \<open>payload\<close>, the call continues as the operation's own exchanges
  (none of them the first) built from \<open>decodeVersion payload\<close>. Both hold in every state
  \<open>s\<close> of the device and after every \<open>log\<close>, so for every call, whatever calls came
  before: the object has the fields \<open>transport\<close> and \<open>_send\<close> and no field that could keep
  a version from an earlier call.
\<close>

theorem operations_begin_with_getVersion:
  "(\<exists>rest. snd (snd (Ada_getSerial E (recording transport)
          (getVersion (getVersionRequest INS_GET_VERSION) decodeVersion)
          getSerial (s, log)))
          = log @ (CLA, INS_GET_VERSION, 0x00, 0x00, []) # rest)
   \<and> (transport (CLA, INS_GET_VERSION, 0x00, 0x00, []) s = (Inr response, s1)
        \<and> stripRetcodeFromResponse response = Inr payload
        \<and> length payload = 4 \<longrightarrow>
        Ada_getSerial E transport
          (getVersion (getVersionRequest INS_GET_VERSION) decodeVersion)
          getSerial s
        = interact_loop E
            (yield_star (decodeVersion payload) (\<lambda>version. getSerial version))
            False (Ada_send transport) s1)
   \<and> (mapE (\<lambda>path. parsePath path INVALID_PATH) paths = Inr parsedPaths \<longrightarrow>
        (\<exists>rest. snd (snd (Ada_getExtendedPublicKeys E (recording transport)
          (getVersion (getVersionRequest INS_GET_VERSION) decodeVersion)
          getExtendedPublicKeys parsePath paths (s, log)))
          = log @ (CLA, INS_GET_VERSION, 0x00, 0x00, []) # rest))
   \<and> (mapE (\<lambda>path. parsePath path INVALID_PATH) paths = Inr parsedPaths
        \<and> transport (CLA, INS_GET_VERSION, 0x00, 0x00, []) s = (Inr response, s1)
        \<and> stripRetcodeFromResponse response = Inr payload
        \<and> length payload = 4 \<longrightarrow>
        Ada_getExtendedPublicKeys E transport
          (getVersion (getVersionRequest INS_GET_VERSION) decodeVersion)
          getExtendedPublicKeys parsePath paths s
        = interact_loop E
            (yield_star (decodeVersion payload) (\<lambda>version. getExtendedPublicKeys version parsedPaths))
            False (Ada_send transport) s1)
   \<and> (parseAddress network address = Inr parsedParams \<longrightarrow>
        (\<exists>rest. snd (snd (Ada_deriveAddress E (recording transport)
          (getVersion (getVersionRequest INS_GET_VERSION) decodeVersion)
          deriveAddress parseAddress network address (s, log)))
          = log @ (CLA, INS_GET_VERSION, 0x00, 0x00, []) # rest))
   \<and> (parseAddress network address = Inr parsedParams
        \<and> transport (CLA, INS_GET_VERSION, 0x00, 0x00, []) s = (Inr response, s1)
        \<and> stripRetcodeFromResponse response = Inr payload
        \<and> length payload = 4 \<longrightarrow>
        Ada_deriveAddress E transport
          (getVersion (getVersionRequest INS_GET_VERSION) decodeVersion)
          deriveAddress parseAddress network address s
        = interact_loop E
            (yield_star (decodeVersion payload) (\<lambda>version. deriveAddress version parsedParams))
            False (Ada_send transport) s1)
   \<and> (parseAddress network address = Inr parsedParams \<longrightarrow>
        (\<exists>rest. snd (snd (Ada_showAddress E (recording transport)
          (getVersion (getVersionRequest INS_GET_VERSION) decodeVersion)
          showAddress parseAddress network address (s, log)))
          = log @ (CLA, INS_GET_VERSION, 0x00, 0x00, []) # rest))
   \<and> (parseAddress network address = Inr parsedParams
        \<and> transport (CLA, INS_GET_VERSION, 0x00, 0x00, []) s = (Inr response, s1)
        \<and> stripRetcodeFromResponse response = Inr payload
        \<and> length payload = 4 \<longrightarrow>
        Ada_showAddress E transport
          (getVersion (getVersionRequest INS_GET_VERSION) decodeVersion)
          showAddress parseAddress network address s
        = interact_loop E
            (yield_star (decodeVersion payload) (\<lambda>version. showAddress version parsedParams))
            False (Ada_send transport) s1)
   \<and> (parseSignTransactionRequest txRequest = Inr parsedRequest \<longrightarrow>
        (\<exists>rest. snd (snd (Ada_signTransaction E (recording transport)
          (getVersion (getVersionRequest INS_GET_VERSION) decodeVersion)
          signTransaction parseSignTransactionRequest txRequest (s, log)))
          = log @ (CLA, INS_GET_VERSION, 0x00, 0x00, []) # rest))
   \<and> (parseSignTransactionRequest txRequest = Inr parsedRequest
        \<and> transport (CLA, INS_GET_VERSION, 0x00, 0x00, []) s = (Inr response, s1)
        \<and> stripRetcodeFromResponse response = Inr payload
        \<and> length payload = 4 \<longrightarrow>
        Ada_signTransaction E transport
          (getVersion (getVersionRequest INS_GET_VERSION) decodeVersion)
          signTransaction parseSignTransactionRequest txRequest s
        = interact_loop E
            (yield_star (decodeVersion payload) (\<lambda>version. signTransaction version parsedRequest))
            False (Ada_send transport) s1)
   \<and> (parseOperationalCertificate opCert = Inr parsedOperationalCertificate \<longrightarrow>
        (\<exists>rest. snd (snd (Ada_signOperationalCertificate E (recording transport)
          (getVersion (getVersionRequest INS_GET_VERSION) decodeVersion)
          signOperationalCertificate parseOperationalCertificate opCert (s, log)))
          = log @ (CLA, INS_GET_VERSION, 0x00, 0x00, []) # rest))
   \<and> (parseOperationalCertificate opCert = Inr parsedOperationalCertificate
        \<and> transport (CLA, INS_GET_VERSION, 0x00, 0x00, []) s = (Inr response, s1)
        \<and> stripRetcodeFromResponse response = Inr payload
        \<and> length payload = 4 \<longrightarrow>
        Ada_signOperationalCertificate E transport
          (getVersion (getVersionRequest INS_GET_VERSION) decodeVersion)
          signOperationalCertificate parseOperationalCertificate opCert s
        = interact_loop E
            (yield_star (decodeVersion payload) (\<lambda>version. signOperationalCertificate version parsedOperationalCertificate))
            False (Ada_send transport) s1)
   \<and> (parseCVote vote = Inr parsedCVote \<longrightarrow>
        (\<exists>rest. snd (snd (Ada_signCIP36Vote E (recording transport)
          (getVersion (getVersionRequest INS_GET_VERSION) decodeVersion)
          signCVote parseCVote vote (s, log)))
          = log @ (CLA, INS_GET_VERSION, 0x00, 0x00, []) # rest))
   \<and> (parseCVote vote = Inr parsedCVote
        \<and> transport (CLA, INS_GET_VERSION, 0x00, 0x00, []) s = (Inr response, s1)
        \<and> stripRetcodeFromResponse response = Inr payload
        \<and> length payload = 4 \<longrightarrow>
        Ada_signCIP36Vote E transport
          (getVersion (getVersionRequest INS_GET_VERSION) decodeVersion)
          signCVote parseCVote vote s
        = interact_loop E
            (yield_star (decodeVersion payload) (\<lambda>version. signCVote version parsedCVote))
            False (Ada_send transport) s1)
   \<and> (parseNativeScript script = Inr parsedScript
        \<and> parseNativeScriptHashDisplayFormat displayFormat = Inr parsedDisplayFormat \<longrightarrow>
        (\<exists>rest. snd (snd (Ada_deriveNativeScriptHash E (recording transport)
          (getVersion (getVersionRequest INS_GET_VERSION) decodeVersion)
          deriveNativeScriptHash parseNativeScript parseNativeScriptHashDisplayFormat script displayFormat (s, log)))
          = log @ (CLA, INS_GET_VERSION, 0x00, 0x00, []) # rest))
   \<and> (parseNativeScript script = Inr parsedScript
        \<and> parseNativeScriptHashDisplayFormat displayFormat = Inr parsedDisplayFormat
        \<and> transport (CLA, INS_GET_VERSION, 0x00, 0x00, []) s = (Inr response, s1)
        \<and> stripRetcodeFromResponse response = Inr payload
        \<and> length payload = 4 \<longrightarrow>
        Ada_deriveNativeScriptHash E transport
          (getVersion (getVersionRequest INS_GET_VERSION) decodeVersion)
          deriveNativeScriptHash parseNativeScript parseNativeScriptHashDisplayFormat script displayFormat s
        = interact_loop E
            (yield_star (decodeVersion payload) (\<lambda>version. deriveNativeScriptHash version parsedScript parsedDisplayFormat))
            False (Ada_send transport) s1)"
proof -
  note fresh = getVersion_fresh [of transport INS_GET_VERSION s response s1 payload E decodeVersion]
  note defs = Ada_getSerial_def priv_getSerial_def Ada_getExtendedPublicKeys_def
    priv_getExtendedPublicKeys_def Ada_deriveAddress_def priv_deriveAddress_def
    Ada_showAddress_def priv_showAddress_def Ada_signTransaction_def priv_signTx_def
    Ada_signOperationalCertificate_def priv_signOperationalCertificate_def
    Ada_signCIP36Vote_def priv_signCIP36Vote_def Ada_deriveNativeScriptHash_def
    priv_deriveNativeScriptHash_def
  show ?thesis
    by (intro conjI impI) (simp_all add: defs getVersion_first_frame fresh)
qed


lemmas sample_device_defs = interact_def wrapRetryStillInCall_def Ada_send_def
  wrapConvertDeviceStatusError_def sampleTransport_def sampleVersionRequest_def
  stripRetcodeFromResponse_def sampleDecodeVersion_def sampleOperation_def sampleRequest_def

lemma sample_parsers:
  "mapE (\<lambda>path. sampleParsePath path INVALID_PATH) [[1, 2, 3]] = Inr [[1, 2, 3]]"
  "sampleParsePath [1, 2] INVALID_PATH = Inl (InvalidDataError INVALID_PATH)"
  "sampleParsePath [1, 2, 3] INVALID_PATH = Inr [1, 2, 3]"
  "sampleParseAddress sampleNetwork request = Inr request"
  "sampleParse request = Inr request"
  by (simp_all add: sampleParsePath_def sampleParseAddress_def sampleParse_def)

lemma sample_version_exchange:
  "changingTransport (CLA, 0x00, 0x00, 0x00, []) 0 = (Inr [0, 0, 0, 0, 0x90, 0x00], 1)"
  "changingTransport (CLA, 0x00, 0x00, 0x00, []) 2 = (Inr [2, 0, 0, 0, 0x90, 0x00], 3)"
  "stripRetcodeFromResponse [0, 0, 0, 0, 0x90, 0x00] = Inr [0, 0, 0, 0]"
  "stripRetcodeFromResponse [2, 0, 0, 0, 0x90, 0x00] = Inr [2, 0, 0, 0]"
  by (simp_all add: changingTransport_def stripRetcodeFromResponse_def)

lemma sample_send_exchange:
  "Ada_send changingTransport (sampleRequest payload) n = (Inr payload, Suc n)"
  by (simp add: sampleRequest_def Ada_send_def wrapConvertDeviceStatusError_def
        changingTransport_def stripRetcodeFromResponse_def)

lemma sample_operation_exchange:
  "interact_loop E (sampleOperation version payload) False (Ada_send changingTransport) n
     = (Inr (version, payload), Suc n)"
  by (simp add: sampleOperation_def sample_send_exchange)

lemma sample_logs:
  "Ada_getSerial sample_ERR_STILL_IN_CALL (recording changingTransport)
      (getVersion (getVersionRequest 0x00) sampleDecodeVersion)
      (\<lambda>version. sampleOperation version [9]) (0, [])
     = (Inr ([0, 0, 0, 0], [9]),
        (2, [(CLA, 0x00, 0x00, 0x00, []), (CLA, 0x10, 0x00, 0x00, [9])]))"
  "Ada_getSerial sample_ERR_STILL_IN_CALL (recording changingTransport)
      (getVersion (getVersionRequest 0x00) sampleDecodeVersion)
      (\<lambda>version. sampleOperation version [9])
      (2, [(CLA, 0x00, 0x00, 0x00, []), (CLA, 0x10, 0x00, 0x00, [9])])
     = (Inr ([2, 0, 0, 0], [9]),
        (4, [(CLA, 0x00, 0x00, 0x00, []), (CLA, 0x10, 0x00, 0x00, [9]),
             (CLA, 0x00, 0x00, 0x00, []), (CLA, 0x10, 0x00, 0x00, [9])]))"
  by (simp_all add: Ada_getSerial_def priv_getSerial_def getVersion_def getVersionRequest_def
        interact_def wrapRetryStillInCall_def Ada_send_def wrapConvertDeviceStatusError_def
        recording_def changingTransport_def stripRetcodeFromResponse_def
        sampleDecodeVersion_def sampleOperation_def sampleRequest_def)

theorem operations_begin_with_getVersion_witness:
  "changingTransport (CLA, 0x00, 0x00, 0x00, []) 0 = (Inr [0, 0, 0, 0, 0x90, 0x00], 1)
   \<and> stripRetcodeFromResponse [0, 0, 0, 0, 0x90, 0x00] = Inr [0, 0, 0, 0]
   \<and> Ada_getSerial sample_ERR_STILL_IN_CALL changingTransport
        (getVersion (getVersionRequest 0x00) sampleDecodeVersion)
        (\<lambda>version. sampleOperation version [9]) 0
     = (Inr ([0, 0, 0, 0], [9]), 2)
   \<and> changingTransport (CLA, 0x00, 0x00, 0x00, []) 2 = (Inr [2, 0, 0, 0, 0x90, 0x00], 3)
   \<and> stripRetcodeFromResponse [2, 0, 0, 0, 0x90, 0x00] = Inr [2, 0, 0, 0]
   \<and> Ada_getSerial sample_ERR_STILL_IN_CALL changingTransport
        (getVersion (getVersionRequest 0x00) sampleDecodeVersion)
        (\<lambda>version. sampleOperation version [9]) 2
     = (Inr ([2, 0, 0, 0], [9]), 4)
   \<and> (\<exists>rest. snd (snd (Ada_getSerial sample_ERR_STILL_IN_CALL (recording changingTransport)
        (getVersion (getVersionRequest 0x00) sampleDecodeVersion)
        (\<lambda>version. sampleOperation version [9])
        (2, [(CLA, 0x00, 0x00, 0x00, []), (CLA, 0x10, 0x00, 0x00, [9])])))
     = [(CLA, 0x00, 0x00, 0x00, []), (CLA, 0x10, 0x00, 0x00, [9])]
         @ (CLA, 0x00, 0x00, 0x00, []) # rest)
   \<and> Ada_getSerial sample_ERR_STILL_IN_CALL (recording changingTransport)
        (getVersion (getVersionRequest 0x00) sampleDecodeVersion)
        (\<lambda>version. sampleOperation version [9]) (0, [])
     = (Inr ([0, 0, 0, 0], [9]),
        (2, [(CLA, 0x00, 0x00, 0x00, []), (CLA, 0x10, 0x00, 0x00, [9])]))
   \<and> Ada_getSerial sample_ERR_STILL_IN_CALL (recording changingTransport)
        (getVersion (getVersionRequest 0x00) sampleDecodeVersion)
        (\<lambda>version. sampleOperation version [9])
        (2, [(CLA, 0x00, 0x00, 0x00, []), (CLA, 0x10, 0x00, 0x00, [9])])
     = (Inr ([2, 0, 0, 0], [9]),
        (4, [(CLA, 0x00, 0x00, 0x00, []), (CLA, 0x10, 0x00, 0x00, [9]),
             (CLA, 0x00, 0x00, 0x00, []), (CLA, 0x10, 0x00, 0x00, [9])]))
   \<and> mapE (\<lambda>path. sampleParsePath path INVALID_PATH) [[1, 2, 3]] = Inr [[1, 2, 3]]
   \<and> Ada_getExtendedPublicKeys sample_ERR_STILL_IN_CALL changingTransport
        (getVersion (getVersionRequest 0x00) sampleDecodeVersion) sampleGetKeys sampleParsePath
        [[1, 2, 3]] 0
     = (Inr [[1, 2, 3]], 2)
   \<and> sampleParseAddress sampleNetwork [7] = Inr [7]
   \<and> Ada_deriveAddress sample_ERR_STILL_IN_CALL changingTransport
        (getVersion (getVersionRequest 0x00) sampleDecodeVersion) sampleOperation
        sampleParseAddress sampleNetwork [7] 0
     = (Inr ([0, 0, 0, 0], [7]), 2)
   \<and> Ada_showAddress sample_ERR_STILL_IN_CALL changingTransport
        (getVersion (getVersionRequest 0x00) sampleDecodeVersion) sampleOperation
        sampleParseAddress sampleNetwork [7] 0
     = (Inr ([0, 0, 0, 0], [7]), 2)
   \<and> sampleParse [5] = Inr [5]
   \<and> sampleParse [4] = Inr [4]
   \<and> Ada_signTransaction sample_ERR_STILL_IN_CALL changingTransport
        (getVersion (getVersionRequest 0x00) sampleDecodeVersion) sampleOperation sampleParse
        [5] 0
     = (Inr ([0, 0, 0, 0], [5]), 2)
   \<and> Ada_signOperationalCertificate sample_ERR_STILL_IN_CALL changingTransport
        (getVersion (getVersionRequest 0x00) sampleDecodeVersion) sampleOperation sampleParse
        [5] 0
     = (Inr ([0, 0, 0, 0], [5]), 2)
   \<and> Ada_signCIP36Vote sample_ERR_STILL_IN_CALL changingTransport
        (getVersion (getVersionRequest 0x00) sampleDecodeVersion) sampleOperation sampleParse
        [5] 0
     = (Inr ([0, 0, 0, 0], [5]), 2)
   \<and> Ada_deriveNativeScriptHash sample_ERR_STILL_IN_CALL changingTransport
        (getVersion (getVersionRequest 0x00) sampleDecodeVersion) sampleOperation2 sampleParse
        sampleParse [5] [4] 0
     = (Inr ([0, 0, 0, 0], [5, 4]), 2)"
proof -
  note first_call = operations_begin_with_getVersion
    [where E = sample_ERR_STILL_IN_CALL and transport = changingTransport
       and INS_GET_VERSION = "0x00" and decodeVersion = sampleDecodeVersion
       and s = 0 and log = "[]"
       and response = "[0, 0, 0, 0, 0x90, 0x00]" and ?s1.0 = 1 and payload = "[0, 0, 0, 0]"
       and getSerial = "\<lambda>version. sampleOperation version [9]"
       and parsePath = sampleParsePath and paths = "[[1, 2, 3]]" and parsedPaths = "[[1, 2, 3]]"
       and getExtendedPublicKeys = sampleGetKeys
       and parseAddress = sampleParseAddress and network = sampleNetwork and address = "[7]"
       and parsedParams = "[7]" and deriveAddress = sampleOperation
       and showAddress = sampleOperation
       and parseSignTransactionRequest = sampleParse and txRequest = "[5]"
       and parsedRequest = "[5]" and signTransaction = sampleOperation
       and parseOperationalCertificate = sampleParse and opCert = "[5]"
       and parsedOperationalCertificate = "[5]" and signOperationalCertificate = sampleOperation
       and parseCVote = sampleParse and vote = "[5]" and parsedCVote = "[5]"
       and signCVote = sampleOperation
       and parseNativeScript = sampleParse and script = "[5]" and parsedScript = "[5]"
       and parseNativeScriptHashDisplayFormat = sampleParse and displayFormat = "[4]"
       and parsedDisplayFormat = "[4]" and deriveNativeScriptHash = sampleOperation2]
  note second_call = operations_begin_with_getVersion
    [where E = sample_ERR_STILL_IN_CALL and transport = changingTransport
       and INS_GET_VERSION = "0x00" and decodeVersion = sampleDecodeVersion
       and s = 2 and log = "[(CLA, 0x00, 0x00, 0x00, []), (CLA, 0x10, 0x00, 0x00, [9])]"
       and response = "[2, 0, 0, 0, 0x90, 0x00]" and ?s1.0 = 3 and payload = "[2, 0, 0, 0]"
       and getSerial = "\<lambda>version. sampleOperation version [9]"]
  have calls: "sampleDecodeVersion payload = Return payload" for payload
    by (simp add: sampleDecodeVersion_def)
  have second_log: "\<exists>rest.
     snd (snd (Ada_getSerial sample_ERR_STILL_IN_CALL (recording changingTransport)
        (getVersion (getVersionRequest 0x00) sampleDecodeVersion)
        (\<lambda>version. sampleOperation version [9])
        (2, [(CLA, 0x00, 0x00, 0x00, []), (CLA, 0x10, 0x00, 0x00, [9])])))
     = [(CLA, 0x00, 0x00, 0x00, []), (CLA, 0x10, 0x00, 0x00, [9])]
         @ (CLA, 0x00, 0x00, 0x00, []) # rest"
    by (rule second_call [THEN conjunct1])
  have second_version: "Ada_getSerial sample_ERR_STILL_IN_CALL changingTransport
        (getVersion (getVersionRequest 0x00) sampleDecodeVersion)
        (\<lambda>version. sampleOperation version [9]) 2
     = (Inr ([2, 0, 0, 0], [9]), 4)"
    using second_call [THEN conjunct2, THEN conjunct1] sample_version_exchange
    by (simp add: calls sample_operation_exchange)
  have first_versions:
    "Ada_getSerial sample_ERR_STILL_IN_CALL changingTransport
        (getVersion (getVersionRequest 0x00) sampleDecodeVersion)
        (\<lambda>version. sampleOperation version [9]) 0
     = (Inr ([0, 0, 0, 0], [9]), 2)
     \<and> Ada_getExtendedPublicKeys sample_ERR_STILL_IN_CALL changingTransport
        (getVersion (getVersionRequest 0x00) sampleDecodeVersion) sampleGetKeys sampleParsePath
        [[1, 2, 3]] 0
     = (Inr [[1, 2, 3]], 2)
     \<and> Ada_deriveAddress sample_ERR_STILL_IN_CALL changingTransport
        (getVersion (getVersionRequest 0x00) sampleDecodeVersion) sampleOperation
        sampleParseAddress sampleNetwork [7] 0
     = (Inr ([0, 0, 0, 0], [7]), 2)
     \<and> Ada_showAddress sample_ERR_STILL_IN_CALL changingTransport
        (getVersion (getVersionRequest 0x00) sampleDecodeVersion) sampleOperation
        sampleParseAddress sampleNetwork [7] 0
     = (Inr ([0, 0, 0, 0], [7]), 2)
     \<and> Ada_signTransaction sample_ERR_STILL_IN_CALL changingTransport
        (getVersion (getVersionRequest 0x00) sampleDecodeVersion) sampleOperation sampleParse
        [5] 0
     = (Inr ([0, 0, 0, 0], [5]), 2)
     \<and> Ada_signOperationalCertificate sample_ERR_STILL_IN_CALL changingTransport
        (getVersion (getVersionRequest 0x00) sampleDecodeVersion) sampleOperation sampleParse
        [5] 0
     = (Inr ([0, 0, 0, 0], [5]), 2)
     \<and> Ada_signCIP36Vote sample_ERR_STILL_IN_CALL changingTransport
        (getVersion (getVersionRequest 0x00) sampleDecodeVersion) sampleOperation sampleParse
        [5] 0
     = (Inr ([0, 0, 0, 0], [5]), 2)
     \<and> Ada_deriveNativeScriptHash sample_ERR_STILL_IN_CALL changingTransport
        (getVersion (getVersionRequest 0x00) sampleDecodeVersion) sampleOperation2 sampleParse
        sampleParse [5] [4] 0
     = (Inr ([0, 0, 0, 0], [5, 4]), 2)"
    using first_call sample_version_exchange
    by (simp add: calls sample_parsers sample_operation_exchange sample_send_exchange
          sampleOperation2_def)
  from first_versions second_version second_log sample_logs sample_version_exchange
    sample_parsers
  show ?thesis by (intro conjI) simp_all
qed


subsection \<open>\<open>getExtendedPublicKey\<close>\<close>

text \<open>
  C10. \<open>getExtendedPublicKey({path})\<close> is \<open>getExtendedPublicKeys({paths: [path]})\<close>
  followed by \<open>[0]\<close>: when the call for the singleton list returns keys, the single-path
  call returns the first of them, after the same exchanges (the same final state);
  when it fails, the single-path call fails with the same error; and a path that
  \<open>parseBIP32Path\<close> rejects makes both fail with that error before anything is sent
  (the state is unchanged).
\<close>

theorem getExtendedPublicKey_is_first_of_singleton:
  "(Ada_getExtendedPublicKeys E transport getVersion' getExtendedPublicKeys parsePath [path] s
      = (Inr keys, s') \<longrightarrow>
    Ada_getExtendedPublicKey E transport getVersion' getExtendedPublicKeys parsePath path s
      = (Inr (index0 keys), s'))
   \<and> (Ada_getExtendedPublicKeys E transport getVersion' getExtendedPublicKeys parsePath [path] s
      = (Inl e, s') \<longrightarrow>
    Ada_getExtendedPublicKey E transport getVersion' getExtendedPublicKeys parsePath path s
      = (Inl e, s'))
   \<and> (parsePath path INVALID_PATH = Inl e \<longrightarrow>
    Ada_getExtendedPublicKeys E transport getVersion' getExtendedPublicKeys parsePath [path] s
      = (Inl e, s)
    \<and> Ada_getExtendedPublicKey E transport getVersion' getExtendedPublicKeys parsePath path s
      = (Inl e, s))"
  by (simp add: Ada_getExtendedPublicKey_def Ada_getExtendedPublicKeys_def)

lemma sample_keys:
  "Ada_getExtendedPublicKeys sample_ERR_STILL_IN_CALL sampleTransport
     (getVersion sampleVersionRequest sampleDecodeVersion) sampleGetKeys sampleParsePath
     [[1, 2, 3]] 0
   = (Inr [[1, 2, 3]], 2)"
  by (simp add: Ada_getExtendedPublicKeys_def sample_parsers priv_getExtendedPublicKeys_def
        yield_star_getVersion sample_device_defs)

theorem getExtendedPublicKey_is_first_of_singleton_witness:
  "Ada_getExtendedPublicKeys sample_ERR_STILL_IN_CALL sampleTransport
     (getVersion sampleVersionRequest sampleDecodeVersion) sampleGetKeys sampleParsePath
     [[1, 2, 3]] 0
   = (Inr [[1, 2, 3]], 2)
   \<and> Ada_getExtendedPublicKey sample_ERR_STILL_IN_CALL sampleTransport
     (getVersion sampleVersionRequest sampleDecodeVersion) sampleGetKeys sampleParsePath
     [1, 2, 3] 0
   = (Inr (Some [1, 2, 3]), 2)
   \<and> sampleParsePath [1, 2] INVALID_PATH = Inl (InvalidDataError INVALID_PATH)
   \<and> Ada_getExtendedPublicKeys sample_ERR_STILL_IN_CALL sampleTransport
     (getVersion sampleVersionRequest sampleDecodeVersion) sampleGetKeys sampleParsePath
     [[1, 2]] 0
   = (Inl (InvalidDataError INVALID_PATH), 0)
   \<and> Ada_getExtendedPublicKey sample_ERR_STILL_IN_CALL sampleTransport
     (getVersion sampleVersionRequest sampleDecodeVersion) sampleGetKeys sampleParsePath
     [1, 2] 0
   = (Inl (InvalidDataError INVALID_PATH), 0)"
proof -
  note valid = getExtendedPublicKey_is_first_of_singleton
    [where E = sample_ERR_STILL_IN_CALL and transport = sampleTransport
       and getVersion' = "getVersion sampleVersionRequest sampleDecodeVersion"
       and getExtendedPublicKeys = sampleGetKeys and parsePath = sampleParsePath
       and path = "[1, 2, 3]" and s = 0 and keys = "[[1, 2, 3]]" and s' = 2]
  note invalid = getExtendedPublicKey_is_first_of_singleton
    [where E = sample_ERR_STILL_IN_CALL and transport = sampleTransport
       and getVersion' = "getVersion sampleVersionRequest sampleDecodeVersion"
       and getExtendedPublicKeys = sampleGetKeys and parsePath = sampleParsePath
       and path = "[1, 2]" and s = 0 and e = "InvalidDataError INVALID_PATH"]
  have r1: "Ada_getExtendedPublicKey sample_ERR_STILL_IN_CALL sampleTransport
     (getVersion sampleVersionRequest sampleDecodeVersion) sampleGetKeys sampleParsePath
     [1, 2, 3] 0 = (Inr (Some [1, 2, 3]), 2)"
    using valid [THEN conjunct1, THEN mp, OF sample_keys] by (simp add: index0_def)
  note r2 = invalid [THEN conjunct2, THEN conjunct2, THEN mp, OF sample_parsers(2)]
  from sample_keys r1 sample_parsers(2) r2 show ?thesis by (intro conjI) simp_all
qed

end
